theory Spec2Isabelle
  imports Main
begin

section \<open>The database updater of WarSpire (src/server/database/Updater/DBUpdater.cpp)\<close>

text \<open>
  A shallow embedding of \<^verbatim>\<open>DBUpdater.cpp\<close> in its non-Windows build. Everything the code
  reads from outside (configuration, the client process, the network, the file system's
  permissions, the operator at the terminal) is a field of an environment record or of the
  world record; everything it does to the outside (log lines, prompts, queries, process
  launches, file writes and removals) is appended to a trace kept in the world.
  A \<^verbatim>\<open>boost::filesystem::path\<close> is the string it was built from, and
  \<^verbatim>\<open>generic_string()\<close> is the identity, as on POSIX.
\<close>

subsection \<open>Data\<close>

text \<open>The four connection classes the template \<^verbatim>\<open>DBUpdater<T>\<close> is instantiated with.\<close>

datatype db_type =
    LoginDatabaseConnection
  | WorldDatabaseConnection
  | CharacterDatabaseConnection
  | HotfixDatabaseConnection

datatype BaseLocation = LOCATION_REPOSITORY | LOCATION_DOWNLOAD

datatype UpdateException = UpdateException string

datatype log_level = LOG_INFO | LOG_WARN | LOG_ERROR | LOG_FATAL

text \<open>What the program does to the outside, in the order it does it.\<close>

datatype event =
    Log log_level string
  | Cout string
  | DbQuery string
  | Exec string "string list"
  | FileWrite string string
  | FileRemove string

record ConnectionInfo =
  host :: string
  user :: string
  password :: string
  port_or_socket :: string
  database :: string
  ssl :: string

text \<open>
  \<^verbatim>\<open>DatabaseWorkerPool<T>\<close>: its connection info, and \<^verbatim>\<open>Query\<close>, whose result is a null
  pointer (\<open>None\<close>) or a result set with a row count.
\<close>

record DatabaseWorkerPool =
  GetConnectionInfo :: ConnectionInfo
  Query :: "string \<Rightarrow> nat option"

record UpdateResult =
  updated :: nat
  recent :: nat
  archived :: nat

text \<open>
  The mutable world: the function-local static \<^verbatim>\<open>path\<close> of
  \<^verbatim>\<open>DBUpdaterUtil::corrected_path()\<close>, the regular files (path to content) and directories,
  the lines still to be read from \<^verbatim>\<open>std::cin\<close> with the stream's good bit, the number of
  client processes started so far, and the trace.
\<close>

record world =
  corrected_path :: string
  files :: "string \<Rightarrow> string option"
  dirs :: "string set"
  cin :: "string list"
  cin_good :: bool
  launched :: nat
  trace :: "event list"

text \<open>
  The environment: what the outside answers. \<open>exit_codes e n\<close> is the exit status of the
  \<open>n\<close>-th client process; \<open>MARIADB_VERSION_ID\<close> is \<open>None\<close> when the macro is not defined.
  \<open>SearchExecutableInPath e fs name\<close> stands for \<^verbatim>\<open>Trinity::SearchExecutableInPath\<close>
  (StartProcess.cpp is not part of the sources at hand): it looks \<open>name\<close> up on the system
  path in the file system \<open>fs\<close> as it is at the moment of the call, and answers the empty
  string when it finds nothing.
  \<open>UpdateFetcher_Update\<close> stands for \<^verbatim>\<open>UpdateFetcher::Update\<close> (UpdateFetcher.cpp is not part of
  the sources at hand) constructed on a source directory with the three callbacks bound to a
  pool: it either throws \<^verbatim>\<open>UpdateException\<close> (\<open>Inl\<close>) or returns an \<^verbatim>\<open>UpdateResult\<close>, and
  may change the world in any way.
\<close>

record env =
  MySQLExecutable :: string
  SourceDirectory :: string
  FullDatabase :: string
  HotfixesDatabase :: string
  config_bool :: "string \<Rightarrow> bool option"
  config_int :: "string \<Rightarrow> int option"
  SearchExecutableInPath :: "(string \<Rightarrow> string option) \<Rightarrow> string \<Rightarrow> string"
  current_path :: string
  MARIADB_VERSION_ID :: "nat option"
  MYSQL_VERSION_ID :: nat
  exit_codes :: "nat \<Rightarrow> int"
  ofstream_is_open :: "string \<Rightarrow> bool"
  curl_easy_init_ok :: bool
  fopen_wb_ok :: "string \<Rightarrow> bool"
  curl_easy_perform :: "string \<Rightarrow> bool \<times> string"
  UpdateFetcher_Update ::
    "db_type \<Rightarrow> DatabaseWorkerPool \<Rightarrow> string \<Rightarrow> bool \<Rightarrow> bool \<Rightarrow> bool \<Rightarrow> int \<Rightarrow> world
      \<Rightarrow> (UpdateException + UpdateResult) \<times> world"

subsection \<open>Library functions the code calls\<close>

abbreviation sq :: string where "sq \<equiv> [CHR 0x27]"
abbreviation dq :: string where "dq \<equiv> [CHR 0x22]"
abbreviation nl :: string where "nl \<equiv> [CHR 0x0A]"
abbreviation bs :: string where "bs \<equiv> [CHR 0x5C]"
abbreviation bq :: string where "bq \<equiv> [CHR 0x60]"

definition emit :: "event \<Rightarrow> world \<Rightarrow> world" where
  "emit ev w = w\<lparr>trace := trace w @ [ev]\<rparr>"

definition TC_LOG :: "log_level \<Rightarrow> string \<Rightarrow> world \<Rightarrow> world" where
  "TC_LOG lvl msg w = emit (Log lvl msg) w"

definition cout :: "string \<Rightarrow> world \<Rightarrow> world" where
  "cout s w = emit (Cout s) w"

text \<open>
  \<^verbatim>\<open>std::getline(std::cin, str)\<close>: on a stream that is no longer good the sentry fails and
  \<open>str\<close> keeps its value; otherwise \<open>str\<close> is erased and receives the next line, and reading
  at the end of the input sets the fail bit. Every line of \<open>cin\<close> ends with a newline.
\<close>

definition getline :: "string \<Rightarrow> world \<Rightarrow> string \<times> world" where
  "getline str w =
     (if \<not> cin_good w then (str, w)
      else case cin w of
             [] \<Rightarrow> ([], w\<lparr>cin_good := False\<rparr>)
           | l # ls \<Rightarrow> (l, w\<lparr>cin := ls\<rparr>))"

definition GetBoolDefault :: "env \<Rightarrow> string \<Rightarrow> bool \<Rightarrow> bool" where
  "GetBoolDefault e name def = (case config_bool e name of None \<Rightarrow> def | Some b \<Rightarrow> b)"

definition GetIntDefault :: "env \<Rightarrow> string \<Rightarrow> int \<Rightarrow> int" where
  "GetIntDefault e name def = (case config_int e name of None \<Rightarrow> def | Some i \<Rightarrow> i)"

definition is_regular_file :: "world \<Rightarrow> string \<Rightarrow> bool" where
  "is_regular_file w p = (files w p \<noteq> None)"

definition is_directory :: "world \<Rightarrow> string \<Rightarrow> bool" where
  "is_directory w p = (p \<in> dirs w)"

text \<open>
  \<^verbatim>\<open>boost::filesystem::absolute\<close> on POSIX: an absolute path is returned as it is, the empty
  path gives the current path itself, and any other relative path is appended to the current
  path with one separator between them.
\<close>

definition is_absolute :: "string \<Rightarrow> bool" where
  "is_absolute p = (case p of [] \<Rightarrow> False | c # _ \<Rightarrow> c = CHR ''/'')"

definition absolute :: "env \<Rightarrow> string \<Rightarrow> string" where
  "absolute e p =
     (if is_absolute p then p
      else if p = [] then current_path e
      else if current_path e = [] \<or> last (current_path e) = CHR ''/'' then current_path e @ p
      else current_path e @ ''/'' @ p)"

text \<open>
  \<^verbatim>\<open>std::string::operator[](pos)\<close> (C++11 and later, [string.access]): defined for
  \<open>pos \<le> size()\<close>; at \<open>pos = size()\<close> it is a reference to the null character. The code
  only reads at position 0.
\<close>

definition in_bounds :: "string \<Rightarrow> nat \<Rightarrow> bool" where
  "in_bounds s pos = (pos \<le> length s)"

definition string_at :: "string \<Rightarrow> nat \<Rightarrow> char" where
  "string_at s pos = (if pos < length s then s ! pos else CHR 0x00)"

text \<open>
  \<^verbatim>\<open>std::isdigit\<close>: the ten decimal digits in every locale. (For a byte above 0x7F the C
  library is handed a negative value where \<^verbatim>\<open>char\<close> is signed; the usual tables answer
  false there, and so does this model.)
\<close>

definition isdigit :: "char \<Rightarrow> bool" where
  "isdigit c = (48 \<le> (of_char c :: nat) \<and> (of_char c :: nat) \<le> 57)"

text \<open>Decimal formatting of the counters in a log line.\<close>

fun to_string :: "nat \<Rightarrow> string" where
  "to_string n =
     (if n < 10 then [char_of (48 + n)]
      else to_string (n div 10) @ [char_of (48 + n mod 10)])"

declare to_string.simps [simp del]

text \<open>
  \<^verbatim>\<open>Trinity::StartProcess\<close>: runs the client and hands back its exit status.
\<close>

definition StartProcess :: "env \<Rightarrow> string \<Rightarrow> string list \<Rightarrow> world \<Rightarrow> int \<times> world" where
  "StartProcess e exe args w =
     (exit_codes e (launched w), emit (Exec exe args) (w\<lparr>launched := Suc (launched w)\<rparr>))"

text \<open>
  \<^verbatim>\<open>DownloadFile\<close>, the curl branch: no handle or no destination file means failure with
  nothing written; otherwise the destination is created and receives what the transfer
  delivered, and the result says whether the transfer ended with \<^verbatim>\<open>CURLE_OK\<close>.
\<close>

definition DownloadFile :: "env \<Rightarrow> string \<Rightarrow> string \<Rightarrow> world \<Rightarrow> bool \<times> world" where
  "DownloadFile e url dest w =
     (if \<not> curl_easy_init_ok e then (False, w)
      else if \<not> fopen_wb_ok e dest then (False, w)
      else case curl_easy_perform e url of
             (res_ok, body) \<Rightarrow>
               (res_ok, emit (FileWrite dest body) (w\<lparr>files := (files w)(dest \<mapsto> body)\<rparr>)))"

definition remove_file :: "string \<Rightarrow> world \<Rightarrow> world" where
  "remove_file p w = emit (FileRemove p) (w\<lparr>files := (files w)(p := None)\<rparr>)"

subsection \<open>DBUpdaterUtil\<close>

definition GetCorrectedMySQLExecutable :: "env \<Rightarrow> world \<Rightarrow> string" where
  "GetCorrectedMySQLExecutable e w =
     (if corrected_path w \<noteq> [] then corrected_path w else MySQLExecutable e)"

definition msg_no_executable :: "string \<Rightarrow> string" where
  "msg_no_executable p =
     ''Didn't find any executable MySQL binary at '' @ sq @ p @ sq @
     '' or in path, correct the path in the *.conf ('' @ dq @ ''MySQLExecutable'' @ dq @ '').''"

definition CheckExecutable :: "env \<Rightarrow> world \<Rightarrow> bool \<times> world" where
  "CheckExecutable e w =
     (let exe = GetCorrectedMySQLExecutable e w in
      if \<not> is_regular_file w exe then
        (let exe = SearchExecutableInPath e (files w) ''mysql'' in
         if exe \<noteq> [] \<and> is_regular_file w exe
         then (True, w\<lparr>corrected_path := absolute e exe\<rparr>)
         else (False, TC_LOG LOG_FATAL (msg_no_executable (absolute e exe)) w))
      else (True, w))"

subsection \<open>The per-database specialisations\<close>

fun GetConfigEntry :: "db_type \<Rightarrow> string" where
  "GetConfigEntry LoginDatabaseConnection = ''Updates.Auth''"
| "GetConfigEntry WorldDatabaseConnection = ''Updates.World''"
| "GetConfigEntry CharacterDatabaseConnection = ''Updates.Character''"
| "GetConfigEntry HotfixDatabaseConnection = ''Updates.Hotfix''"

fun GetTableName :: "db_type \<Rightarrow> string" where
  "GetTableName LoginDatabaseConnection = ''Auth''"
| "GetTableName WorldDatabaseConnection = ''World''"
| "GetTableName CharacterDatabaseConnection = ''Character''"
| "GetTableName HotfixDatabaseConnection = ''Hotfixes''"

fun GetBaseFile :: "env \<Rightarrow> db_type \<Rightarrow> string" where
  "GetBaseFile e LoginDatabaseConnection = SourceDirectory e @ ''/sql/base/auth_database.sql''"
| "GetBaseFile e WorldDatabaseConnection = FullDatabase e"
| "GetBaseFile e CharacterDatabaseConnection = SourceDirectory e @ ''/sql/base/characters_database.sql''"
| "GetBaseFile e HotfixDatabaseConnection = HotfixesDatabase e"

text \<open>
  The explicit specialisations for the world and hotfix connections, and the primary
  template for the other two.
\<close>

fun GetBaseLocationType :: "db_type \<Rightarrow> BaseLocation" where
  "GetBaseLocationType WorldDatabaseConnection = LOCATION_DOWNLOAD"
| "GetBaseLocationType HotfixDatabaseConnection = LOCATION_DOWNLOAD"
| "GetBaseLocationType _ = LOCATION_REPOSITORY"

subsection \<open>ApplyFile\<close>

text \<open>
  The argument vector of the eight-argument \<^verbatim>\<open>ApplyFile\<close>, in the order of its
  \<^verbatim>\<open>emplace_back\<close> calls (the branch under \<^verbatim>\<open>#else\<close> of \<^verbatim>\<open>_WIN32\<close>).
\<close>

definition ApplyFile_args ::
  "env \<Rightarrow> string \<Rightarrow> string \<Rightarrow> string \<Rightarrow> string \<Rightarrow> string \<Rightarrow> string \<Rightarrow> string \<Rightarrow> string list" where
  "ApplyFile_args e host' user' password' port_or_socket' database' ssl' path =
     [''-h'' @ host', ''-u'' @ user']
     @ (if password' \<noteq> [] then [''-p'' @ password'] else [])
     @ (if \<not> isdigit (string_at port_or_socket' 0)
        then [''-P0'', ''--protocol=SOCKET'', ''-S'' @ port_or_socket']
        else [''-P'' @ port_or_socket'])
     @ [''--default-character-set=utf8mb4'', ''--max-allowed-packet=1GB'']
     @ (if MARIADB_VERSION_ID e = None \<and> MYSQL_VERSION_ID e \<ge> 80000
        then (if ssl' = ''ssl'' then [''--ssl-mode=REQUIRED''] else [])
             @ (if MYSQL_VERSION_ID e \<ge> 90400 then [''--commands=ON''] else [])
        else (if ssl' = ''ssl'' then [''--ssl''] else []))
     @ [''-e'', ''BEGIN; SOURCE '' @ path @ ''; COMMIT;'']
     @ (if database' \<noteq> [] then [database'] else [])"

definition msg_no_default :: "string \<Rightarrow> string \<Rightarrow> string" where
  "msg_no_default dbName path =
     ''Database update aborted or failed for '' @ sq @ dbName @ sq @ ''.'' @ nl @
     ''You declined to download or provide a custom SQL file, and no default TDB SQL file was found at ''
       @ sq @ path @ sq @ ''.'' @ nl @
     ''Please manually place a valid SQL file in the correct location, enable AutoDBUpdate, or re-run the configuration.''"

definition msg_default_found :: "string \<Rightarrow> string \<Rightarrow> string" where
  "msg_default_found dbName path =
     ''Database update for '' @ sq @ dbName @ sq @ '' was skipped or failed.'' @ nl @
     ''You declined both online and custom local SQL updates, but a default local file was found:'' @ nl @
     ''    '' @ path @ nl @
     ''Would you like to use this default SQL file for database setup?''"

definition msg_default_failed :: "string \<Rightarrow> string" where
  "msg_default_failed path =
     ''Default SQL file '' @ sq @ path @ sq @ '' could not be applied. '' @
     ''Please verify the file is valid or re-run the configuration.''"

definition msg_declined_default :: "string \<Rightarrow> string" where
  "msg_declined_default dbName =
     ''User declined to apply default local SQL file. Database '' @ sq @ dbName @ sq @
     '' remains unchanged.''"

text \<open>
  The eight-argument \<^verbatim>\<open>ApplyFile\<close>. Its fallback calls the two-argument overload, which calls
  the eight-argument one again with the pool's own connection info: that call is written
  out here. Each round of the fallback reads an accepting line from \<open>cin\<close>, so the
  recursion ends with the input.
\<close>

function ApplyFile8 ::
  "env \<Rightarrow> DatabaseWorkerPool \<Rightarrow> string \<Rightarrow> string \<Rightarrow> string \<Rightarrow> string \<Rightarrow> string \<Rightarrow> string \<Rightarrow> string
    \<Rightarrow> world \<Rightarrow> (UpdateException + unit) \<times> world" where
  "ApplyFile8 e pool host' user' password' port_or_socket' database' ssl' path w =
     (case StartProcess e (GetCorrectedMySQLExecutable e w)
             (ApplyFile_args e host' user' password' port_or_socket' database' ssl' path) w of
        (ret, w1) \<Rightarrow>
          if ret \<noteq> 0 then
            (let defaultExists = is_regular_file w1 path;
                 dbName = database (GetConnectionInfo pool) in
             if \<not> defaultExists then
               (Inl (UpdateException ''Database update canceled or failed''),
                TC_LOG LOG_ERROR (msg_no_default dbName path) w1)
             else
               (case getline [] (cout ''Use default TrinityCore SQL (TDB) files? [y/N]: ''
                                   (TC_LOG LOG_WARN (msg_default_found dbName path) w1)) of
                  (response, w2) \<Rightarrow>
                    if response = ''y'' \<or> response = ''Y'' then
                      (case ApplyFile8 e pool
                              (host (GetConnectionInfo pool)) (user (GetConnectionInfo pool))
                              (password (GetConnectionInfo pool))
                              (port_or_socket (GetConnectionInfo pool))
                              (database (GetConnectionInfo pool)) (ssl (GetConnectionInfo pool))
                              path
                              (TC_LOG LOG_INFO
                                 (''Applying default local SQL file '' @ sq @ path @ sq @ ''...'') w2) of
                         (Inl ex, w3) \<Rightarrow> (Inl ex, TC_LOG LOG_FATAL (msg_default_failed path) w3)
                       | (Inr u, w3) \<Rightarrow> (Inr (), w3))
                    else
                      (Inl (UpdateException ''Database update canceled or failed''),
                       TC_LOG LOG_INFO (msg_declined_default dbName) w2)))
          else (Inr (), w1))"
  by pat_completeness auto
termination
  apply (relation "measure (\<lambda>(e, pool, h, u, p, ps, d, s, path, w). length (cin w))")
   apply simp
  apply (auto simp: StartProcess_def emit_def getline_def cout_def TC_LOG_def
              split: if_splits list.splits)
  done

declare ApplyFile8.simps [simp del]

text \<open>The two-argument overload.\<close>

definition ApplyFile :: "env \<Rightarrow> DatabaseWorkerPool \<Rightarrow> string \<Rightarrow> world \<Rightarrow> (UpdateException + unit) \<times> world" where
  "ApplyFile e pool path w =
     ApplyFile8 e pool
       (host (GetConnectionInfo pool)) (user (GetConnectionInfo pool))
       (password (GetConnectionInfo pool)) (port_or_socket (GetConnectionInfo pool))
       (database (GetConnectionInfo pool)) (ssl (GetConnectionInfo pool)) path w"

subsection \<open>Create\<close>

definition temp :: string where
  "temp = ''create_table.sql''"

definition create_statement :: "string \<Rightarrow> string" where
  "create_statement db =
     ''CREATE DATABASE '' @ bq @ db @ bq @
     '' DEFAULT CHARACTER SET utf8mb4 COLLATE utf8mb4_unicode_ci'' @ nl @ nl"

definition msg_creating :: "string \<Rightarrow> string" where
  "msg_creating db =
     ''Database '' @ dq @ db @ dq @ '' does not exist, automatically creating it...''"

definition msg_create_failed :: "string \<Rightarrow> string" where
  "msg_create_failed db =
     ''Failed to create database '' @ db @ ''! Does the user (named in *.conf) have '' @
     bq @ ''CREATE'' @ bq @ '', '' @ bq @ ''ALTER'' @ bq @ '', '' @ bq @ ''DROP'' @ bq @ '', '' @
     bq @ ''INSERT'' @ bq @ '' and '' @ bq @ ''DELETE'' @ bq @ '' privileges on the MySQL server?''"

text \<open>
  \<^verbatim>\<open>std::ofstream file(temp)\<close> either fails to open, or creates the file; the statement is
  written and the stream closed before the client runs.
\<close>

definition write_file :: "string \<Rightarrow> string \<Rightarrow> world \<Rightarrow> world" where
  "write_file p content w = emit (FileWrite p content) (w\<lparr>files := (files w)(p \<mapsto> content)\<rparr>)"

definition Create :: "env \<Rightarrow> db_type \<Rightarrow> DatabaseWorkerPool \<Rightarrow> world \<Rightarrow> bool \<times> world" where
  "Create e T pool w =
     (let ci = GetConnectionInfo pool;
          w1 = TC_LOG LOG_INFO (msg_creating (database ci)) w
      in
      if \<not> ofstream_is_open e temp then
        (False,
         TC_LOG LOG_FATAL (''Failed to create temporary query file '' @ dq @ temp @ dq @ ''!'') w1)
      else
        (case ApplyFile8 e pool (host ci) (user ci) (password ci) (port_or_socket ci) [] (ssl ci) temp
                (write_file temp (create_statement (database ci)) w1) of
           (Inl ex, w2) \<Rightarrow>
             (False, remove_file temp (TC_LOG LOG_FATAL (msg_create_failed (database ci)) w2))
         | (Inr u, w2) \<Rightarrow>
             (True, remove_file temp (TC_LOG LOG_INFO ''Done.'' w2))))"

subsection \<open>Update\<close>

definition msg_no_source_directory :: "string \<Rightarrow> string" where
  "msg_no_source_directory d =
     ''DBUpdater: The given source directory '' @ d @
     '' does not exist, change the path to the directory where your sql directory exists (for example c:''
     @ bs @ ''source'' @ bs @ ''trinitycore). Shutting down.''"

text \<open>
  Lines 274 to 285: the fetcher is constructed on the source directory and its
  \<^verbatim>\<open>Update\<close> is called with the four configured values.
\<close>

definition Update_fetch ::
  "env \<Rightarrow> db_type \<Rightarrow> DatabaseWorkerPool \<Rightarrow> string \<Rightarrow> world \<Rightarrow> (UpdateException + UpdateResult) \<times> world" where
  "Update_fetch e T pool sourceDirectory w =
     UpdateFetcher_Update e T pool sourceDirectory
       (GetBoolDefault e ''Updates.Redundancy'' True)
       (GetBoolDefault e ''Updates.AllowRehash'' True)
       (GetBoolDefault e ''Updates.ArchivedRedundancy'' False)
       (GetIntDefault e ''Updates.CleanDeadRefMaxCount'' 3) w"

definition msg_updating :: "string \<Rightarrow> string" where
  "msg_updating dbName = ''Updating '' @ dbName @ '' database...''"

definition Update :: "env \<Rightarrow> db_type \<Rightarrow> DatabaseWorkerPool \<Rightarrow> world \<Rightarrow> bool \<times> world" where
  "Update e T pool w =
     (case CheckExecutable e w of
        (False, w1) \<Rightarrow> (False, w1)
      | (True, w1) \<Rightarrow>
          (let w2 = TC_LOG LOG_INFO (msg_updating (GetTableName T)) w1;
               sourceDirectory = SourceDirectory e
           in
           if \<not> is_directory w2 sourceDirectory then
             (False, TC_LOG LOG_ERROR (msg_no_source_directory sourceDirectory) w2)
           else
             (case Update_fetch e T pool sourceDirectory w2 of
                (Inl ex, w3) \<Rightarrow> (False, w3)
              | (Inr result, w3) \<Rightarrow>
                  (let info = ''Containing '' @ to_string (recent result) @ '' new and '' @
                              to_string (archived result) @ '' archived updates.''
                   in
                   if updated result = 0 then
                     (True,
                      TC_LOG LOG_INFO
                        (''>> '' @ GetTableName T @ '' database is up-to-date! '' @ info) w3)
                   else
                     (True,
                      TC_LOG LOG_INFO
                        (''>> Applied '' @ to_string (updated result) @ '' '' @
                         (if updated result = 1 then ''query'' else ''queries'') @ ''. '' @ info)
                        w3)))))"

subsection \<open>Populate\<close>

definition Retrieve :: "DatabaseWorkerPool \<Rightarrow> string \<Rightarrow> world \<Rightarrow> nat option \<times> world" where
  "Retrieve pool query w = (Query pool query, emit (DbQuery query) w)"

definition world_url :: string where
  "world_url = ''https://warspire.fpr.net/download/sql/TDB_full_world_1125.25101_2025_10_29.sql''"

definition hotfixes_url :: string where
  "hotfixes_url = ''https://warspire.fpr.net/download/sql/TDB_full_hotfixes_1125.25101_2025_10_29.sql''"

definition downloadUrl_of :: "string \<Rightarrow> string" where
  "downloadUrl_of dbName =
     (if dbName = ''World'' then world_url
      else if dbName = ''Hotfixes'' then hotfixes_url
      else [])"

definition msg_updating_to_latest :: "string \<Rightarrow> string" where
  "msg_updating_to_latest dbName = ''Updating the '' @ dbName @ '' database to latest...''"

definition msg_download_failed :: "string \<Rightarrow> string" where
  "msg_download_failed url = ''Failed to download '' @ url @ ''. Manual download required!''"

definition msg_applying :: "string \<Rightarrow> string" where
  "msg_applying base = ''>> Applying '' @ sq @ base @ sq @ ''...''"

definition msg_completed :: "string \<Rightarrow> string" where
  "msg_completed dbName = ''>> '' @ dbName @ '' Database update completed!''"

text \<open>
  Lines 338 to 391: the block guarded by \<^verbatim>\<open>!downloadUrl.empty()\<close>. \<open>Inl b\<close> is
  \<^verbatim>\<open>return b\<close>; \<open>Inr base\<close> is falling out of the block with that value of \<^verbatim>\<open>base\<close>.
\<close>

definition Populate_download ::
  "env \<Rightarrow> string \<Rightarrow> string \<Rightarrow> string \<Rightarrow> world \<Rightarrow> (bool + string) \<times> world" where
  "Populate_download e dbName downloadUrl base w =
     (let autoUpdate = GetBoolDefault e ''AllowAutoDBUpdate'' False in
      case (if autoUpdate
            then (''y'',
                  TC_LOG LOG_INFO
                    ''AllowAutoDBUpdate=1, automatically proceeding with database update.'' w)
            else getline []
                   (cout (''Do you want to download and apply the latest '' @ dbName @
                          '' database update? [y/N]: '') w)) of
        (userInput, w1) \<Rightarrow>
          if userInput = ''y'' \<or> userInput = ''Y'' then
            (case DownloadFile e downloadUrl base
                    (TC_LOG LOG_INFO (''Downloading latest base SQL from '' @ downloadUrl @ '' ...'') w1) of
               (False, w2) \<Rightarrow> (Inl False, TC_LOG LOG_FATAL (msg_download_failed downloadUrl) w2)
             | (True, w2) \<Rightarrow> (Inr base, TC_LOG LOG_INFO (''Successfully downloaded '' @ base) w2))
          else
            (case getline userInput
                    (cout ''Do you want to use an existing local SQL file instead? [y/N]: '' w1) of
               (userInput', w2) \<Rightarrow>
                 if userInput' = ''y'' \<or> userInput' = ''Y'' then
                   (case getline [] (cout ''Enter full path to local SQL file: '' w2) of
                      (localFile, w3) \<Rightarrow>
                        (Inr localFile,
                         TC_LOG LOG_INFO (''Using existing local file '' @ sq @ localFile @ sq)
                           (if localFile = []
                            then TC_LOG LOG_INFO ''No local file provided, skipping database update.'' w3
                            else w3)))
                 else (Inr base, TC_LOG LOG_INFO ''Update canceled by user.'' w2)))"

text \<open>
  Lines 306 to 391: everything before the base file is applied. \<open>Inl b\<close> is
  \<^verbatim>\<open>return b\<close>; \<open>Inr base\<close> is reaching line 393 with that value of \<^verbatim>\<open>base\<close>.
\<close>

definition Populate_base :: "env \<Rightarrow> db_type \<Rightarrow> string \<Rightarrow> world \<Rightarrow> (bool + string) \<times> world" where
  "Populate_base e T dbName w =
     (let w1 = TC_LOG LOG_INFO (msg_updating_to_latest dbName) w;
          p = GetBaseFile e T
      in
      if p = [] then (Inl True, TC_LOG LOG_INFO ''>> No base file provided, skipped!'' w1)
      else
        (let downloadUrl = downloadUrl_of dbName in
         if downloadUrl \<noteq> [] then Populate_download e dbName downloadUrl p w1
         else (Inr p, w1)))"

definition Populate_resolve ::
  "env \<Rightarrow> db_type \<Rightarrow> DatabaseWorkerPool \<Rightarrow> world \<Rightarrow> (bool + string) \<times> world" where
  "Populate_resolve e T pool w =
     (case CheckExecutable e w of
        (False, w1) \<Rightarrow> (Inl False, w1)
      | (True, w1) \<Rightarrow>
          (let dbName = GetTableName T in
           if dbName \<noteq> ''World'' \<and> dbName \<noteq> ''Hotfixes'' then
             (case Retrieve pool ''SHOW TABLES'' w1 of
                (result, w2) \<Rightarrow>
                  if (case result of None \<Rightarrow> False | Some rows \<Rightarrow> rows > 0)
                  then (Inl True, w2)
                  else Populate_base e T dbName w2)
           else Populate_base e T dbName w1))"

text \<open>
  Lines 393 to 405: the base file is applied, and the handler of \<^verbatim>\<open>UpdateException\<close> is
  empty.
\<close>

definition Populate_apply ::
  "env \<Rightarrow> db_type \<Rightarrow> DatabaseWorkerPool \<Rightarrow> string \<Rightarrow> world \<Rightarrow> bool \<times> world" where
  "Populate_apply e T pool base w =
     (case ApplyFile e pool base (TC_LOG LOG_INFO (msg_applying base) w) of
        (Inl ex, w1) \<Rightarrow> (True, TC_LOG LOG_INFO (msg_completed (GetTableName T)) w1)
      | (Inr u, w1) \<Rightarrow> (True, TC_LOG LOG_INFO (msg_completed (GetTableName T)) w1))"

definition Populate :: "env \<Rightarrow> db_type \<Rightarrow> DatabaseWorkerPool \<Rightarrow> world \<Rightarrow> bool \<times> world" where
  "Populate e T pool w =
     (case Populate_resolve e T pool w of
        (Inl b, w1) \<Rightarrow> (b, w1)
      | (Inr base, w1) \<Rightarrow> Populate_apply e T pool base w1)"

subsection \<open>Runs of the module and observations on the trace\<close>

text \<open>
  A process uses the module through its entry points; \<open>run\<close> performs a sequence of such
  calls, each on the world the previous one left. The file system belongs to the machine, not
  to the process: between two calls it may be changed from outside (\<open>OutsideChange\<close>, which
  puts a new file system in place and touches nothing else).
\<close>

datatype call =
    CallCheckExecutable
  | CallCreate db_type DatabaseWorkerPool
  | CallPopulate db_type DatabaseWorkerPool
  | CallUpdate db_type DatabaseWorkerPool
  | CallApplyFile DatabaseWorkerPool string
  | OutsideChange "string \<Rightarrow> string option"

fun perform :: "env \<Rightarrow> call \<Rightarrow> world \<Rightarrow> world" where
  "perform e CallCheckExecutable w = snd (CheckExecutable e w)"
| "perform e (CallCreate T pool) w = snd (Create e T pool w)"
| "perform e (CallPopulate T pool) w = snd (Populate e T pool w)"
| "perform e (CallUpdate T pool) w = snd (Update e T pool w)"
| "perform e (CallApplyFile pool path) w = snd (ApplyFile e pool path w)"
| "perform e (OutsideChange fs) w = w\<lparr>files := fs\<rparr>"

fun run :: "env \<Rightarrow> call list \<Rightarrow> world \<Rightarrow> world" where
  "run e [] w = w"
| "run e (c # cs) w = run e cs (perform e c w)"

text \<open>\<open>regular_at_each_call e p cs w\<close>: \<open>p\<close> is a regular file whenever a call of the run begins.\<close>

fun regular_at_each_call :: "env \<Rightarrow> string \<Rightarrow> call list \<Rightarrow> world \<Rightarrow> bool" where
  "regular_at_each_call e p [] w = True"
| "regular_at_each_call e p (c # cs) w =
     (is_regular_file w p \<and> regular_at_each_call e p cs (perform e c w))"

fun is_Exec :: "event \<Rightarrow> bool" where
  "is_Exec (Exec exe args) = True"
| "is_Exec _ = False"


text \<open>\<open>adds P w w'\<close>: the trace of \<open>w'\<close> is the trace of \<open>w\<close> followed by events that all satisfy \<open>P\<close>.\<close>

definition adds :: "(event \<Rightarrow> bool) \<Rightarrow> world \<Rightarrow> world \<Rightarrow> bool" where
  "adds P w w' = (\<exists>evs. trace w' = trace w @ evs \<and> list_all P evs)"

subsection \<open>A concrete installation\<close>

text \<open>
  An environment, a pool and a world on which the definitions are evaluated: the client is
  installed at the configured path, every client process exits with status 1, every download
  fails, nothing is configured and nobody answers at the terminal.
\<close>

definition env0 :: env where
  "env0 =
     \<lparr>MySQLExecutable = ''/usr/bin/mysql'',
      SourceDirectory = ''/src'',
      FullDatabase = ''TDB_world.sql'',
      HotfixesDatabase = ''TDB_hotfixes.sql'',
      config_bool = (\<lambda>name. None),
      config_int = (\<lambda>name. None),
      SearchExecutableInPath = (\<lambda>fs name. []),
      current_path = ''/srv'',
      MARIADB_VERSION_ID = None,
      MYSQL_VERSION_ID = 80400,
      exit_codes = (\<lambda>n. 1),
      ofstream_is_open = (\<lambda>p. True),
      curl_easy_init_ok = True,
      fopen_wb_ok = (\<lambda>p. True),
      curl_easy_perform = (\<lambda>url. (False, [])),
      UpdateFetcher_Update =
        (\<lambda>T pool dir redundancy rehash archivedRedundancy maxCount w.
           (Inr \<lparr>updated = 0, recent = 0, archived = 0\<rparr>, w))\<rparr>"

definition pool0 :: DatabaseWorkerPool where
  "pool0 =
     \<lparr>GetConnectionInfo =
        \<lparr>host = ''127.0.0.1'', user = ''trinity'', password = ''trinity'',
         port_or_socket = ''3306'', database = ''auth'', ssl = []\<rparr>,
      Query = (\<lambda>q. None)\<rparr>"

text \<open>
  The same installation with no client at the configured path and two on the system path,
  \<open>/opt/a\<close> searched before \<open>/opt/b\<close>.
\<close>

definition env_two_clients :: env where
  "env_two_clients =
     env0\<lparr>SearchExecutableInPath :=
            (\<lambda>fs name.
               if fs (''/opt/a/'' @ name) \<noteq> None then ''/opt/a/'' @ name
               else if fs (''/opt/b/'' @ name) \<noteq> None then ''/opt/b/'' @ name
               else [])\<rparr>"

definition world0 :: world where
  "world0 =
     \<lparr>corrected_path = [],
      files = [''/usr/bin/mysql'' \<mapsto> ''ELF''],
      dirs = {''/src''},
      cin = [],
      cin_good = True,
      launched = 0,
      trace = []\<rparr>"

definition world_two_clients :: world where
  "world_two_clients =
     world0\<lparr>files := [''/opt/a/mysql'' \<mapsto> ''ELF'', ''/opt/b/mysql'' \<mapsto> ''ELF'']\<rparr>"

section \<open>Properties\<close>

subsection \<open>What each primitive leaves alone\<close>

lemma emit_fields [simp]:
  "corrected_path (emit ev w) = corrected_path w"
  "files (emit ev w) = files w"
  "dirs (emit ev w) = dirs w"
  "cin (emit ev w) = cin w"
  "cin_good (emit ev w) = cin_good w"
  "launched (emit ev w) = launched w"
  "trace (emit ev w) = trace w @ [ev]"
  by (simp_all add: emit_def)

lemma TC_LOG_fields [simp]:
  "corrected_path (TC_LOG lvl msg w) = corrected_path w"
  "files (TC_LOG lvl msg w) = files w"
  "dirs (TC_LOG lvl msg w) = dirs w"
  "cin (TC_LOG lvl msg w) = cin w"
  "cin_good (TC_LOG lvl msg w) = cin_good w"
  "launched (TC_LOG lvl msg w) = launched w"
  "trace (TC_LOG lvl msg w) = trace w @ [Log lvl msg]"
  by (simp_all add: TC_LOG_def)

lemma cout_fields [simp]:
  "corrected_path (cout s w) = corrected_path w"
  "files (cout s w) = files w"
  "dirs (cout s w) = dirs w"
  "cin (cout s w) = cin w"
  "cin_good (cout s w) = cin_good w"
  "launched (cout s w) = launched w"
  "trace (cout s w) = trace w @ [Cout s]"
  by (simp_all add: cout_def)

lemma getline_fields [simp]:
  "corrected_path (snd (getline s w)) = corrected_path w"
  "files (snd (getline s w)) = files w"
  "dirs (snd (getline s w)) = dirs w"
  "launched (snd (getline s w)) = launched w"
  "trace (snd (getline s w)) = trace w"
  by (simp_all add: getline_def split: list.split)

lemma StartProcess_fields [simp]:
  "fst (StartProcess e exe args w) = exit_codes e (launched w)"
  "corrected_path (snd (StartProcess e exe args w)) = corrected_path w"
  "files (snd (StartProcess e exe args w)) = files w"
  "dirs (snd (StartProcess e exe args w)) = dirs w"
  "cin (snd (StartProcess e exe args w)) = cin w"
  "cin_good (snd (StartProcess e exe args w)) = cin_good w"
  "launched (snd (StartProcess e exe args w)) = Suc (launched w)"
  "trace (snd (StartProcess e exe args w)) = trace w @ [Exec exe args]"
  by (simp_all add: StartProcess_def)

lemma getline_cin_fields [simp]:
  "cin (snd (getline s (emit ev w))) = cin (snd (getline s w))"
  "cin_good (snd (getline s (emit ev w))) = cin_good (snd (getline s w))"
  "cin (snd (getline s (TC_LOG lvl msg w))) = cin (snd (getline s w))"
  "cin_good (snd (getline s (TC_LOG lvl msg w))) = cin_good (snd (getline s w))"
  "cin (snd (getline s (cout t w))) = cin (snd (getline s w))"
  "cin_good (snd (getline s (cout t w))) = cin_good (snd (getline s w))"
  "cin (snd (getline s (snd (StartProcess e exe args w)))) = cin (snd (getline s w))"
  "cin_good (snd (getline s (snd (StartProcess e exe args w)))) = cin_good (snd (getline s w))"
  by (simp_all add: getline_def emit_def TC_LOG_def cout_def StartProcess_def split: list.split)

lemma is_regular_file_simps [simp]:
  "is_regular_file (emit ev w) p = is_regular_file w p"
  "is_regular_file (TC_LOG lvl msg w) p = is_regular_file w p"
  "is_regular_file (cout s w) p = is_regular_file w p"
  "is_regular_file (snd (getline s w)) p = is_regular_file w p"
  "is_regular_file (snd (StartProcess e exe args w)) p = is_regular_file w p"
  by (simp_all add: is_regular_file_def)

lemma getline_fst_cong:
  "cin w' = cin w \<Longrightarrow> cin_good w' = cin_good w \<Longrightarrow> fst (getline s w') = fst (getline s w)"
  by (simp add: getline_def split: list.split)


lemma getline_accept_shorter:
  "fst (getline [] w) = ''y'' \<or> fst (getline [] w) = ''Y'' \<Longrightarrow>
   length (cin (snd (getline [] w))) < length (cin w)"
  by (auto simp: getline_def split: if_splits list.splits)

lemma ApplyFile8_ok:
  assumes "exit_codes e (launched w) = 0"
  shows "ApplyFile8 e pool h u p ps d s path w =
           (Inr (), snd (StartProcess e (GetCorrectedMySQLExecutable e w)
                           (ApplyFile_args e h u p ps d s path) w))"
  using assms by (subst ApplyFile8.simps) (simp add: StartProcess_def)

lemma ApplyFile8_no_default:
  assumes "exit_codes e (launched w) \<noteq> 0" and "\<not> is_regular_file w path"
  shows "ApplyFile8 e pool h u p ps d s path w =
           (Inl (UpdateException ''Database update canceled or failed''),
            TC_LOG LOG_ERROR (msg_no_default (database (GetConnectionInfo pool)) path)
              (snd (StartProcess e (GetCorrectedMySQLExecutable e w)
                      (ApplyFile_args e h u p ps d s path) w)))"
  using assms by (subst ApplyFile8.simps) (simp add: StartProcess_def is_regular_file_def emit_def)

lemma getline_fst_simps [simp]:
  "fst (getline s (emit ev w)) = fst (getline s w)"
  "fst (getline s (TC_LOG lvl msg w)) = fst (getline s w)"
  "fst (getline s (cout t w)) = fst (getline s w)"
  "fst (getline s (snd (StartProcess e exe args w))) = fst (getline s w)"
  by (rule getline_fst_cong; simp)+

lemma ApplyFile8_declined:
  assumes "exit_codes e (launched w) \<noteq> 0" and "is_regular_file w path"
    and "fst (getline [] w) \<noteq> ''y''" and "fst (getline [] w) \<noteq> ''Y''"
  shows "ApplyFile8 e pool h u p ps d s path w =
           (Inl (UpdateException ''Database update canceled or failed''),
            TC_LOG LOG_INFO (msg_declined_default (database (GetConnectionInfo pool)))
              (snd (getline []
                 (cout ''Use default TrinityCore SQL (TDB) files? [y/N]: ''
                    (TC_LOG LOG_WARN (msg_default_found (database (GetConnectionInfo pool)) path)
                       (snd (StartProcess e (GetCorrectedMySQLExecutable e w)
                               (ApplyFile_args e h u p ps d s path) w)))))))"
  using assms
  by (subst ApplyFile8.simps) (simp add: case_prod_unfold Let_def)

lemma ApplyFile8_accepted:
  assumes "exit_codes e (launched w) \<noteq> 0" and "is_regular_file w path"
    and "fst (getline [] w) = ''y'' \<or> fst (getline [] w) = ''Y''"
  shows "ApplyFile8 e pool h u p ps d s path w =
           (case ApplyFile e pool path
                   (TC_LOG LOG_INFO (''Applying default local SQL file '' @ sq @ path @ sq @ ''...'')
                      (snd (getline []
                         (cout ''Use default TrinityCore SQL (TDB) files? [y/N]: ''
                            (TC_LOG LOG_WARN
                               (msg_default_found (database (GetConnectionInfo pool)) path)
                               (snd (StartProcess e (GetCorrectedMySQLExecutable e w)
                                       (ApplyFile_args e h u p ps d s path) w))))))) of
              (Inl ex, w3) \<Rightarrow> (Inl ex, TC_LOG LOG_FATAL (msg_default_failed path) w3)
            | (Inr u, w3) \<Rightarrow> (Inr (), w3))"
  using assms
  by (subst ApplyFile8.simps) (auto simp add: case_prod_unfold ApplyFile_def Let_def)

lemma ApplyFile8_frame:
  "corrected_path (snd (ApplyFile8 e pool h u p ps d s path w)) = corrected_path w \<and>
   files (snd (ApplyFile8 e pool h u p ps d s path w)) = files w \<and>
   dirs (snd (ApplyFile8 e pool h u p ps d s path w)) = dirs w"
proof (induction "length (cin w)" arbitrary: w h u p ps d s rule: less_induct)
  case less
  let ?w1 = "snd (StartProcess e (GetCorrectedMySQLExecutable e w) (ApplyFile_args e h u p ps d s path) w)"
  consider (ok) "exit_codes e (launched w) = 0"
    | (nodef) "exit_codes e (launched w) \<noteq> 0" "\<not> is_regular_file w path"
    | (decl) "exit_codes e (launched w) \<noteq> 0" "is_regular_file w path"
        "fst (getline [] w) \<noteq> ''y''" "fst (getline [] w) \<noteq> ''Y''"
    | (acc) "exit_codes e (launched w) \<noteq> 0" "is_regular_file w path"
        "fst (getline [] w) = ''y'' \<or> fst (getline [] w) = ''Y''"
    by blast
  then show ?case
  proof cases
    case ok
    then show ?thesis by (simp add: ApplyFile8_ok)
  next
    case nodef
    then show ?thesis by (simp add: ApplyFile8_no_default)
  next
    case decl
    then show ?thesis by (simp add: ApplyFile8_declined)
  next
    case acc
    let ?w2 = "TC_LOG LOG_INFO (''Applying default local SQL file '' @ sq @ path @ sq @ ''...'')
                 (snd (getline []
                    (cout ''Use default TrinityCore SQL (TDB) files? [y/N]: ''
                       (TC_LOG LOG_WARN (msg_default_found (database (GetConnectionInfo pool)) path) ?w1))))"
    have "length (cin ?w2) < length (cin w)"
      using getline_accept_shorter[OF acc(3)] by simp
    note IH = less[OF this]
    show ?thesis
      unfolding ApplyFile8_accepted[OF acc] ApplyFile_def
      using IH[of "host (GetConnectionInfo pool)" "user (GetConnectionInfo pool)"
          "password (GetConnectionInfo pool)" "port_or_socket (GetConnectionInfo pool)"
          "database (GetConnectionInfo pool)" "ssl (GetConnectionInfo pool)"]
      by (simp add: case_prod_unfold split: sum.split)
  qed
qed

subsection \<open>What each step adds to the trace\<close>

lemma adds_refl [simp]: "adds P w w"
  by (simp add: adds_def)

lemma adds_trans: "adds P w w' \<Longrightarrow> adds P w' w'' \<Longrightarrow> adds P w w''"
  by (auto simp: adds_def)

lemma adds_same_trace: "trace w' = trace w \<Longrightarrow> adds P w w'"
  by (simp add: adds_def)

lemma adds_emit: "P ev \<Longrightarrow> adds P w w' \<Longrightarrow> adds P w (emit ev w')"
  by (auto simp: adds_def)

lemma adds_TC_LOG: "P (Log lvl msg) \<Longrightarrow> adds P w w' \<Longrightarrow> adds P w (TC_LOG lvl msg w')"
  by (auto simp: adds_def)

lemma adds_cout: "P (Cout s) \<Longrightarrow> adds P w w' \<Longrightarrow> adds P w (cout s w')"
  by (auto simp: adds_def)

lemma adds_getline: "adds P w w' \<Longrightarrow> adds P w (snd (getline s w'))"
  by (auto simp: adds_def)

lemma adds_StartProcess:
  "P (Exec exe args) \<Longrightarrow> adds P w w' \<Longrightarrow> adds P w (snd (StartProcess e exe args w'))"
  by (auto simp: adds_def)

lemma ApplyFile8_adds:
  assumes L: "\<And>lvl msg. P (Log lvl msg)" and C: "\<And>s. P (Cout s)" and X: "\<And>exe args. P (Exec exe args)"
  shows "adds P w (snd (ApplyFile8 e pool h u p ps d s path w))"
proof (induction "length (cin w)" arbitrary: w h u p ps d s rule: less_induct)
  case less
  let ?w1 = "snd (StartProcess e (GetCorrectedMySQLExecutable e w) (ApplyFile_args e h u p ps d s path) w)"
  have w1: "adds P w ?w1"
    by (intro adds_StartProcess X adds_refl)
  consider (ok) "exit_codes e (launched w) = 0"
    | (nodef) "exit_codes e (launched w) \<noteq> 0" "\<not> is_regular_file w path"
    | (decl) "exit_codes e (launched w) \<noteq> 0" "is_regular_file w path"
        "fst (getline [] w) \<noteq> ''y''" "fst (getline [] w) \<noteq> ''Y''"
    | (acc) "exit_codes e (launched w) \<noteq> 0" "is_regular_file w path"
        "fst (getline [] w) = ''y'' \<or> fst (getline [] w) = ''Y''"
    by blast
  then show ?case
  proof cases
    case ok
    then show ?thesis using w1 by (simp add: ApplyFile8_ok)
  next
    case nodef
    then show ?thesis by (simp add: ApplyFile8_no_default adds_TC_LOG L w1)
  next
    case decl
    then show ?thesis
      by (simp add: ApplyFile8_declined adds_TC_LOG adds_getline adds_cout L C w1)
  next
    case acc
    let ?w2 = "TC_LOG LOG_INFO (''Applying default local SQL file '' @ sq @ path @ sq @ ''...'')
                 (snd (getline []
                    (cout ''Use default TrinityCore SQL (TDB) files? [y/N]: ''
                       (TC_LOG LOG_WARN (msg_default_found (database (GetConnectionInfo pool)) path) ?w1))))"
    have w2: "adds P w ?w2"
      by (intro adds_TC_LOG adds_getline adds_cout L C w1)
    have "length (cin ?w2) < length (cin w)"
      using getline_accept_shorter[OF acc(3)] by simp
    from less[OF this] have IH: "adds P ?w2 (snd (ApplyFile e pool path ?w2))"
      by (simp add: ApplyFile_def)
    show ?thesis
      unfolding ApplyFile8_accepted[OF acc]
      using adds_trans[OF w2 IH] L
      by (auto simp: case_prod_unfold adds_TC_LOG split: sum.split)
  qed
qed

lemma ApplyFile8_first_event:
  "\<exists>evs. trace (snd (ApplyFile8 e pool h u p ps d s path w)) =
           trace w @ Exec (GetCorrectedMySQLExecutable e w) (ApplyFile_args e h u p ps d s path) # evs"
proof -
  let ?w1 = "snd (StartProcess e (GetCorrectedMySQLExecutable e w) (ApplyFile_args e h u p ps d s path) w)"
  have "adds (\<lambda>ev. True) ?w1 (snd (ApplyFile8 e pool h u p ps d s path w))"
  proof -
    consider (ok) "exit_codes e (launched w) = 0"
      | (nodef) "exit_codes e (launched w) \<noteq> 0" "\<not> is_regular_file w path"
      | (decl) "exit_codes e (launched w) \<noteq> 0" "is_regular_file w path"
          "fst (getline [] w) \<noteq> ''y''" "fst (getline [] w) \<noteq> ''Y''"
      | (acc) "exit_codes e (launched w) \<noteq> 0" "is_regular_file w path"
          "fst (getline [] w) = ''y'' \<or> fst (getline [] w) = ''Y''"
      by blast
    then show ?thesis
    proof cases
      case ok
      then show ?thesis by (simp add: ApplyFile8_ok)
    next
      case nodef
      then show ?thesis by (simp add: ApplyFile8_no_default adds_TC_LOG)
    next
      case decl
      then show ?thesis by (simp add: ApplyFile8_declined adds_TC_LOG adds_getline adds_cout)
    next
      case acc
      let ?w2 = "TC_LOG LOG_INFO (''Applying default local SQL file '' @ sq @ path @ sq @ ''...'')
                 (snd (getline []
                    (cout ''Use default TrinityCore SQL (TDB) files? [y/N]: ''
                       (TC_LOG LOG_WARN (msg_default_found (database (GetConnectionInfo pool)) path) ?w1))))"
      have w2: "adds (\<lambda>ev. True) ?w1 ?w2"
        by (intro adds_TC_LOG adds_getline adds_cout adds_refl TrueI)
      have "adds (\<lambda>ev. True) ?w2 (snd (ApplyFile e pool path ?w2))"
        unfolding ApplyFile_def by (rule ApplyFile8_adds) simp_all
      from adds_trans[OF w2 this] show ?thesis
        unfolding ApplyFile8_accepted[OF acc]
        by (auto simp: case_prod_unfold adds_TC_LOG split: sum.split)
    qed
  qed
  then show ?thesis
    by (auto simp: adds_def)
qed

subsection \<open>Downloads and the executable check\<close>

lemma DownloadFile_fst:
  "fst (DownloadFile e url dest w) =
     (curl_easy_init_ok e \<and> fopen_wb_ok e dest \<and> fst (curl_easy_perform e url))"
  by (simp add: DownloadFile_def case_prod_unfold)

lemma DownloadFile_fields [simp]:
  "corrected_path (snd (DownloadFile e url dest w)) = corrected_path w"
  "dirs (snd (DownloadFile e url dest w)) = dirs w"
  "cin (snd (DownloadFile e url dest w)) = cin w"
  "cin_good (snd (DownloadFile e url dest w)) = cin_good w"
  "launched (snd (DownloadFile e url dest w)) = launched w"
  by (simp_all add: DownloadFile_def case_prod_unfold)

lemma adds_DownloadFile:
  "(\<And>p c. P (FileWrite p c)) \<Longrightarrow> adds P w w' \<Longrightarrow> adds P w (snd (DownloadFile e url dest w'))"
  by (auto simp: DownloadFile_def case_prod_unfold adds_def)

lemma CheckExecutable_fields [simp]:
  "files (snd (CheckExecutable e w)) = files w"
  "dirs (snd (CheckExecutable e w)) = dirs w"
  "cin (snd (CheckExecutable e w)) = cin w"
  "cin_good (snd (CheckExecutable e w)) = cin_good w"
  "launched (snd (CheckExecutable e w)) = launched w"
  by (simp_all add: CheckExecutable_def Let_def)

lemma CheckExecutable_True_trace:
  "fst (CheckExecutable e w) \<Longrightarrow> trace (snd (CheckExecutable e w)) = trace w"
  by (simp add: CheckExecutable_def Let_def split: if_splits)

lemma CheckExecutable_False:
  "\<not> fst (CheckExecutable e w) \<Longrightarrow>
   snd (CheckExecutable e w) =
     TC_LOG LOG_FATAL (msg_no_executable (absolute e (SearchExecutableInPath e (files w) ''mysql''))) w"
  by (auto simp add: CheckExecutable_def Let_def split: if_splits)

lemma CheckExecutable_corrected_path:
  "corrected_path (snd (CheckExecutable e w)) = corrected_path w \<or>
   corrected_path (snd (CheckExecutable e w)) = absolute e (SearchExecutableInPath e (files w) ''mysql'')"
  by (simp add: CheckExecutable_def Let_def)

lemma absolute_nonempty: "p \<noteq> [] \<Longrightarrow> absolute e p \<noteq> []"
  by (simp add: absolute_def)

lemma adds_CheckExecutable:
  "(\<And>lvl msg. P (Log lvl msg)) \<Longrightarrow> adds P w (snd (CheckExecutable e w))"
  by (auto simp add: CheckExecutable_def Let_def adds_TC_LOG adds_def)

lemma Populate_download_corrected_path:
  "corrected_path (snd (Populate_download e dbName url base w)) = corrected_path w"
  by (simp add: Populate_download_def Let_def case_prod_unfold split: bool.split)

lemma Populate_download_adds:
  assumes "\<And>lvl msg. P (Log lvl msg)" and "\<And>s. P (Cout s)" and "\<And>p c. P (FileWrite p c)"
  shows "adds P w (snd (Populate_download e dbName url base w))"
  using assms
  by (simp add: Populate_download_def Let_def case_prod_unfold adds_TC_LOG adds_cout adds_getline
          adds_DownloadFile split: bool.split)

subsection \<open>The policy of each database type\<close>

text \<open>
  Claim C9. Each of the four database types has exactly one policy: the four types are all
  there are, their configuration entries and their table names are pairwise different, and
  the base-location kind is \<open>LOCATION_DOWNLOAD\<close> exactly for the world and the hotfix
  database, \<open>LOCATION_REPOSITORY\<close> for the auth and the character database.
\<close>

theorem base_location_by_type:
  "GetBaseLocationType WorldDatabaseConnection = LOCATION_DOWNLOAD \<and>
   GetBaseLocationType HotfixDatabaseConnection = LOCATION_DOWNLOAD \<and>
   GetBaseLocationType LoginDatabaseConnection = LOCATION_REPOSITORY \<and>
   GetBaseLocationType CharacterDatabaseConnection = LOCATION_REPOSITORY \<and>
   (GetBaseLocationType T = LOCATION_DOWNLOAD) =
     (T = WorldDatabaseConnection \<or> T = HotfixDatabaseConnection) \<and>
   T \<in> set [LoginDatabaseConnection, WorldDatabaseConnection,
              CharacterDatabaseConnection, HotfixDatabaseConnection] \<and>
   distinct (map GetConfigEntry
     [LoginDatabaseConnection, WorldDatabaseConnection,
      CharacterDatabaseConnection, HotfixDatabaseConnection]) \<and>
   distinct (map GetTableName
     [LoginDatabaseConnection, WorldDatabaseConnection,
      CharacterDatabaseConnection, HotfixDatabaseConnection])"
  by (cases T) simp_all

subsection \<open>The argument vector of the client\<close>

lemma string_at_0: "string_at ps 0 = (if ps = [] then CHR 0x00 else hd ps)"
  by (cases ps) (simp_all add: string_at_def)

lemma not_isdigit_nul: "\<not> isdigit (CHR 0x00)"
  by (simp add: isdigit_def)

lemma ApplyFile_args_source:
  "\<exists>pre post. ApplyFile_args e h u p ps d s path =
      pre @ [''-e'', ''BEGIN; SOURCE '' @ path @ ''; COMMIT;''] @ post"
proof -
  let ?pre = "([''-h'' @ h, ''-u'' @ u]
      @ (if p \<noteq> [] then [''-p'' @ p] else []))
     @ (if \<not> isdigit (string_at ps 0)
        then [''-P0'', ''--protocol=SOCKET'', ''-S'' @ ps]
        else [''-P'' @ ps])
     @ [''--default-character-set=utf8mb4'', ''--max-allowed-packet=1GB'']
        @ (if MARIADB_VERSION_ID e = None \<and> MYSQL_VERSION_ID e \<ge> 80000
           then (if s = ''ssl'' then [''--ssl-mode=REQUIRED''] else [])
                @ (if MYSQL_VERSION_ID e \<ge> 90400 then [''--commands=ON''] else [])
           else (if s = ''ssl'' then [''--ssl''] else []))"
  have "ApplyFile_args e h u p ps d s path =
      ?pre @ [''-e'', ''BEGIN; SOURCE '' @ path @ ''; COMMIT;''] @ (if d \<noteq> [] then [d] else [])"
    by (simp add: ApplyFile_args_def)
  then show ?thesis by blast
qed

lemma ApplyFile_args_port:
  "if ps \<noteq> [] \<and> isdigit (hd ps)
   then \<exists>pre post. ApplyFile_args e h u p ps d s path = pre @ [''-P'' @ ps] @ post
   else \<exists>pre post. ApplyFile_args e h u p ps d s path =
          pre @ [''-P0'', ''--protocol=SOCKET'', ''-S'' @ ps] @ post"
proof -
  let ?pre = "[''-h'' @ h, ''-u'' @ u] @ (if p \<noteq> [] then [''-p'' @ p] else [])"
  let ?post = "[''--default-character-set=utf8mb4'', ''--max-allowed-packet=1GB'']
        @ (if MARIADB_VERSION_ID e = None \<and> MYSQL_VERSION_ID e \<ge> 80000
           then (if s = ''ssl'' then [''--ssl-mode=REQUIRED''] else [])
                @ (if MYSQL_VERSION_ID e \<ge> 90400 then [''--commands=ON''] else [])
           else (if s = ''ssl'' then [''--ssl''] else []))
        @ [''-e'', ''BEGIN; SOURCE '' @ path @ ''; COMMIT;'']
        @ (if d \<noteq> [] then [d] else [])"
  have dig: "isdigit (string_at ps 0) = (ps \<noteq> [] \<and> isdigit (hd ps))"
    by (simp add: string_at_0 not_isdigit_nul)
  show ?thesis
  proof (cases "ps \<noteq> [] \<and> isdigit (hd ps)")
    case True
    with dig have "ApplyFile_args e h u p ps d s path = ?pre @ [''-P'' @ ps] @ ?post"
      by (simp add: ApplyFile_args_def)
    then have "\<exists>pre post. ApplyFile_args e h u p ps d s path = pre @ [''-P'' @ ps] @ post"
      by blast
    with True show ?thesis by simp
  next
    case False
    with dig have "ApplyFile_args e h u p ps d s path =
        ?pre @ [''-P0'', ''--protocol=SOCKET'', ''-S'' @ ps] @ ?post"
      by (simp add: ApplyFile_args_def)
    then have "\<exists>pre post. ApplyFile_args e h u p ps d s path =
        pre @ [''-P0'', ''--protocol=SOCKET'', ''-S'' @ ps] @ post"
      by blast
    with False show ?thesis by auto
  qed
qed

text \<open>
  Claim C6. Every call of \<^verbatim>\<open>ApplyFile\<close> builds an argument vector that holds \<open>-e\<close> followed
  by exactly \<open>BEGIN; SOURCE <path>; COMMIT;\<close> for the file it was given. If the first
  character of the port-or-socket value is a decimal digit the vector holds \<open>-P<value>\<close>;
  otherwise it holds \<open>-P0\<close>, \<open>--protocol=SOCKET\<close> and \<open>-S<value>\<close>, one after the other. The
  first thing a call does is start the client with this vector.
\<close>

theorem ApplyFile_argument_vector:
  "(\<exists>pre post. ApplyFile_args e h u p ps d s path =
       pre @ [''-e'', ''BEGIN; SOURCE '' @ path @ ''; COMMIT;''] @ post) \<and>
   (if ps \<noteq> [] \<and> isdigit (hd ps)
    then \<exists>pre post. ApplyFile_args e h u p ps d s path = pre @ [''-P'' @ ps] @ post
    else \<exists>pre post. ApplyFile_args e h u p ps d s path =
           pre @ [''-P0'', ''--protocol=SOCKET'', ''-S'' @ ps] @ post) \<and>
   (\<exists>evs. trace (snd (ApplyFile8 e pool h u p ps d s path w)) =
      trace w @ Exec (GetCorrectedMySQLExecutable e w) (ApplyFile_args e h u p ps d s path) # evs)"
  using ApplyFile_args_source ApplyFile_args_port ApplyFile8_first_event by (intro conjI)

text \<open>
  Claim C10, as amended. The claim is that the read of \<^verbatim>\<open>port_or_socket[0]\<close> is out of bounds
  for the empty string, so that \<^verbatim>\<open>ApplyFile\<close> needs a non-empty value. It is not:
  \<^verbatim>\<open>operator[]\<close> of \<^verbatim>\<open>std::string\<close> is defined up to and including \<^verbatim>\<open>size()\<close>. What
  holds is that the read at position 0 is in bounds for every value; it is the first character
  of a non-empty value and the null character of the empty one, which is no digit, so the
  empty value takes the named-socket flags, with \<open>-S\<close> followed by nothing.
\<close>

theorem empty_port_or_socket_is_read_in_bounds:
  "in_bounds ps 0 \<and>
   string_at ps 0 = (if ps = [] then CHR 0x00 else hd ps) \<and>
   \<not> isdigit (string_at [] 0) \<and>
   (\<exists>pre post. ApplyFile_args e h u p [] d s path =
      pre @ [''-P0'', ''--protocol=SOCKET'', ''-S''] @ post)"
proof -
  have "\<exists>pre post. ApplyFile_args e h u p [] d s path =
      pre @ [''-P0'', ''--protocol=SOCKET'', ''-S'' @ []] @ post"
    using ApplyFile_args_port[of "[]" e h u p d s path] by simp
  then show ?thesis
    by (simp add: in_bounds_def string_at_0 not_isdigit_nul)
qed

text \<open>
  The claim C10 as stated fails at the empty port-or-socket value: position 0 is in bounds
  there, and the character read is the null character.
\<close>

theorem empty_port_or_socket_counterexample:
  "in_bounds [] 0 \<and> string_at [] 0 = CHR 0x00"
  by (simp add: in_bounds_def string_at_def)

subsection \<open>Update\<close>

lemma write_file_fields [simp]:
  "corrected_path (write_file p c w) = corrected_path w"
  "files (write_file p c w) = (files w)(p \<mapsto> c)"
  "dirs (write_file p c w) = dirs w"
  "cin (write_file p c w) = cin w"
  "cin_good (write_file p c w) = cin_good w"
  "launched (write_file p c w) = launched w"
  "trace (write_file p c w) = trace w @ [FileWrite p c]"
  by (simp_all add: write_file_def)

lemma remove_file_fields [simp]:
  "corrected_path (remove_file p w) = corrected_path w"
  "files (remove_file p w) = (files w)(p := None)"
  "dirs (remove_file p w) = dirs w"
  "cin (remove_file p w) = cin w"
  "cin_good (remove_file p w) = cin_good w"
  "launched (remove_file p w) = launched w"
  "trace (remove_file p w) = trace w @ [FileRemove p]"
  by (simp_all add: remove_file_def)

lemma Retrieve_fields [simp]:
  "fst (Retrieve pool q w) = Query pool q"
  "corrected_path (snd (Retrieve pool q w)) = corrected_path w"
  "files (snd (Retrieve pool q w)) = files w"
  "dirs (snd (Retrieve pool q w)) = dirs w"
  "cin (snd (Retrieve pool q w)) = cin w"
  "cin_good (snd (Retrieve pool q w)) = cin_good w"
  "launched (snd (Retrieve pool q w)) = launched w"
  "trace (snd (Retrieve pool q w)) = trace w @ [DbQuery q]"
  by (simp_all add: Retrieve_def)

lemma is_directory_simps [simp]:
  "is_directory (TC_LOG lvl msg w) p = is_directory w p"
  "is_directory (snd (CheckExecutable e w)) p = is_directory w p"
  by (simp_all add: is_directory_def)

lemma Update_unfold:
  "Update e T pool w =
     (if \<not> fst (CheckExecutable e w) then (False, snd (CheckExecutable e w))
      else if \<not> is_directory w (SourceDirectory e)
      then (False, TC_LOG LOG_ERROR (msg_no_source_directory (SourceDirectory e))
                     (TC_LOG LOG_INFO (msg_updating (GetTableName T)) (snd (CheckExecutable e w))))
      else (case Update_fetch e T pool (SourceDirectory e)
                   (TC_LOG LOG_INFO (msg_updating (GetTableName T)) (snd (CheckExecutable e w))) of
              (Inl ex, w3) \<Rightarrow> (False, w3)
            | (Inr result, w3) \<Rightarrow>
                (True,
                 TC_LOG LOG_INFO
                   (if updated result = 0
                    then ''>> '' @ GetTableName T @ '' database is up-to-date! '' @
                         ''Containing '' @ to_string (recent result) @ '' new and '' @
                         to_string (archived result) @ '' archived updates.''
                    else ''>> Applied '' @ to_string (updated result) @ '' '' @
                         (if updated result = 1 then ''query'' else ''queries'') @ ''. '' @
                         ''Containing '' @ to_string (recent result) @ '' new and '' @
                         to_string (archived result) @ '' archived updates.'') w3)))"
proof (cases "CheckExecutable e w")
  case (Pair ok w1)
  have d: "is_directory w1 (SourceDirectory e) = is_directory w (SourceDirectory e)"
    using is_directory_simps(2)[of e w "SourceDirectory e"] Pair by simp
  show ?thesis
    unfolding Update_def Pair
    by (cases ok) (simp_all add: Let_def d split: prod.split sum.split)
qed

lemma Update_no_executable:
  "\<not> fst (CheckExecutable e w) \<Longrightarrow> Update e T pool w = (False, snd (CheckExecutable e w))"
  by (simp add: Update_unfold)

lemma Update_no_directory:
  "fst (CheckExecutable e w) \<Longrightarrow> \<not> is_directory w (SourceDirectory e) \<Longrightarrow>
   Update e T pool w =
     (False, TC_LOG LOG_ERROR (msg_no_source_directory (SourceDirectory e))
               (TC_LOG LOG_INFO (msg_updating (GetTableName T)) (snd (CheckExecutable e w))))"
  by (simp add: Update_unfold)

lemma Update_fetched:
  "fst (CheckExecutable e w) \<Longrightarrow> is_directory w (SourceDirectory e) \<Longrightarrow>
   fst (Update e T pool w) =
     (\<exists>result. fst (Update_fetch e T pool (SourceDirectory e)
                      (TC_LOG LOG_INFO (msg_updating (GetTableName T))
                         (snd (CheckExecutable e w)))) = Inr result) \<and>
   ((\<exists>ex. fst (Update_fetch e T pool (SourceDirectory e)
                 (TC_LOG LOG_INFO (msg_updating (GetTableName T))
                    (snd (CheckExecutable e w)))) = Inl ex) \<longrightarrow>
    snd (Update e T pool w) =
      snd (Update_fetch e T pool (SourceDirectory e)
             (TC_LOG LOG_INFO (msg_updating (GetTableName T)) (snd (CheckExecutable e w)))))"
  by (simp add: Update_unfold case_prod_unfold split: sum.split)

text \<open>
  Claim C3. \<^verbatim>\<open>Update\<close> returns success exactly when the client executable validates, the
  configured source directory exists and the fetcher's \<^verbatim>\<open>Update\<close> returns a result rather than
  throwing \<^verbatim>\<open>UpdateException\<close>. In each of the three failing cases it returns failure and does
  nothing more: after a failed executable check the world is the one the check left, after
  a missing source directory only the two log lines were added and no client was started,
  and after the fetcher has thrown the world is the one the fetcher left.
\<close>

theorem Update_success_iff:
  "fst (Update e T pool w) =
     (fst (CheckExecutable e w) \<and> is_directory w (SourceDirectory e) \<and>
      (\<exists>result. fst (Update_fetch e T pool (SourceDirectory e)
                        (TC_LOG LOG_INFO (msg_updating (GetTableName T))
                           (snd (CheckExecutable e w)))) = Inr result)) \<and>
   (\<not> fst (CheckExecutable e w) \<longrightarrow>
      \<not> fst (Update e T pool w) \<and>
      snd (Update e T pool w) = snd (CheckExecutable e w) \<and>
      launched (snd (Update e T pool w)) = launched w) \<and>
   (fst (CheckExecutable e w) \<and> \<not> is_directory w (SourceDirectory e) \<longrightarrow>
      \<not> fst (Update e T pool w) \<and>
      trace (snd (Update e T pool w)) =
        trace w @ [Log LOG_INFO (msg_updating (GetTableName T)),
                   Log LOG_ERROR (msg_no_source_directory (SourceDirectory e))] \<and>
      launched (snd (Update e T pool w)) = launched w) \<and>
   (fst (CheckExecutable e w) \<and> is_directory w (SourceDirectory e) \<and>
    (\<exists>ex. fst (Update_fetch e T pool (SourceDirectory e)
                  (TC_LOG LOG_INFO (msg_updating (GetTableName T))
                     (snd (CheckExecutable e w)))) = Inl ex) \<longrightarrow>
      \<not> fst (Update e T pool w) \<and>
      snd (Update e T pool w) =
        snd (Update_fetch e T pool (SourceDirectory e)
               (TC_LOG LOG_INFO (msg_updating (GetTableName T)) (snd (CheckExecutable e w)))))"
proof -
  let ?F = "Update_fetch e T pool (SourceDirectory e)
              (TC_LOG LOG_INFO (msg_updating (GetTableName T)) (snd (CheckExecutable e w)))"
  consider (noexe) "\<not> fst (CheckExecutable e w)"
    | (nodir) "fst (CheckExecutable e w)" "\<not> is_directory w (SourceDirectory e)"
    | (fetch) "fst (CheckExecutable e w)" "is_directory w (SourceDirectory e)"
    by blast
  then show ?thesis
  proof cases
    case noexe
    then show ?thesis by (simp add: Update_no_executable)
  next
    case nodir
    then show ?thesis by (simp add: Update_no_directory CheckExecutable_True_trace)
  next
    case fetch
    with Update_fetched[OF fetch, of T pool] show ?thesis
      by (auto simp: Update_unfold)
  qed
qed

theorem Update_success_iff_witness:
  "(\<not> fst (CheckExecutable env0 (world0\<lparr>files := Map.empty\<rparr>)) \<and>
    \<not> fst (Update env0 WorldDatabaseConnection pool0 (world0\<lparr>files := Map.empty\<rparr>)) \<and>
    launched (snd (Update env0 WorldDatabaseConnection pool0 (world0\<lparr>files := Map.empty\<rparr>))) = 0) \<and>
   (fst (CheckExecutable env0 (world0\<lparr>dirs := {}\<rparr>)) \<and>
    \<not> is_directory (world0\<lparr>dirs := {}\<rparr>) (SourceDirectory env0) \<and>
    \<not> fst (Update env0 WorldDatabaseConnection pool0 (world0\<lparr>dirs := {}\<rparr>)) \<and>
    trace (snd (Update env0 WorldDatabaseConnection pool0 (world0\<lparr>dirs := {}\<rparr>))) =
      [Log LOG_INFO (msg_updating ''World''), Log LOG_ERROR (msg_no_source_directory ''/src'')]) \<and>
   (fst (CheckExecutable
           (env0\<lparr>UpdateFetcher_Update :=
                   \<lambda>T pool dir a b c n w. (Inl (UpdateException ''dead references''), w)\<rparr>) world0) \<and>
    is_directory world0 ''/src'' \<and>
    \<not> fst (Update
             (env0\<lparr>UpdateFetcher_Update :=
                     \<lambda>T pool dir a b c n w. (Inl (UpdateException ''dead references''), w)\<rparr>)
             WorldDatabaseConnection pool0 world0) \<and>
    trace (snd (Update
             (env0\<lparr>UpdateFetcher_Update :=
                     \<lambda>T pool dir a b c n w. (Inl (UpdateException ''dead references''), w)\<rparr>)
             WorldDatabaseConnection pool0 world0)) = [Log LOG_INFO (msg_updating ''World'')]) \<and>
   fst (Update env0 WorldDatabaseConnection pool0 world0)"
proof -
  let ?e = "env0\<lparr>UpdateFetcher_Update :=
                   \<lambda>T pool dir a b c n w. (Inl (UpdateException ''dead references''), w)\<rparr>"
  have a: "\<not> fst (CheckExecutable env0 (world0\<lparr>files := Map.empty\<rparr>))"
    by (simp add: CheckExecutable_def GetCorrectedMySQLExecutable_def is_regular_file_def
          env0_def world0_def)
  have b: "fst (CheckExecutable env0 (world0\<lparr>dirs := {}\<rparr>))"
          "\<not> is_directory (world0\<lparr>dirs := {}\<rparr>) (SourceDirectory env0)"
    by (simp_all add: CheckExecutable_def GetCorrectedMySQLExecutable_def is_regular_file_def
          is_directory_def env0_def world0_def)
  have c: "fst (CheckExecutable ?e world0)" "is_directory world0 (SourceDirectory ?e)"
          "fst (Update_fetch ?e WorldDatabaseConnection pool0 (SourceDirectory ?e)
                  (TC_LOG LOG_INFO (msg_updating (GetTableName WorldDatabaseConnection))
                     (snd (CheckExecutable ?e world0)))) = Inl (UpdateException ''dead references'')"
          "trace (snd (Update_fetch ?e WorldDatabaseConnection pool0 (SourceDirectory ?e)
                  (TC_LOG LOG_INFO (msg_updating (GetTableName WorldDatabaseConnection))
                     (snd (CheckExecutable ?e world0))))) = [Log LOG_INFO (msg_updating ''World'')]"
    by (simp_all add: CheckExecutable_def GetCorrectedMySQLExecutable_def is_regular_file_def
          is_directory_def env0_def world0_def Update_fetch_def)
  have d: "fst (CheckExecutable env0 world0)" "is_directory world0 (SourceDirectory env0)"
          "fst (Update_fetch env0 WorldDatabaseConnection pool0 (SourceDirectory env0)
                  (TC_LOG LOG_INFO (msg_updating (GetTableName WorldDatabaseConnection))
                     (snd (CheckExecutable env0 world0)))) = Inr \<lparr>updated = 0, recent = 0, archived = 0\<rparr>"
    by (simp_all add: CheckExecutable_def GetCorrectedMySQLExecutable_def is_regular_file_def
          is_directory_def env0_def world0_def Update_fetch_def)
  have l: "launched (world0\<lparr>files := Map.empty\<rparr>) = 0" "trace (world0\<lparr>dirs := {}\<rparr>) = []"
    "SourceDirectory env0 = ''/src''" "SourceDirectory ?e = ''/src''"
    by (simp_all add: world0_def env0_def)
  show ?thesis
    using Update_success_iff[of env0 WorldDatabaseConnection pool0 "world0\<lparr>files := Map.empty\<rparr>"]
      Update_success_iff[of env0 WorldDatabaseConnection pool0 "world0\<lparr>dirs := {}\<rparr>"]
      Update_success_iff[of ?e WorldDatabaseConnection pool0 world0]
      Update_success_iff[of env0 WorldDatabaseConnection pool0 world0]
      a b c d l
    by simp
qed

subsection \<open>Create\<close>

lemma Create_unfold:
  "ofstream_is_open e temp \<Longrightarrow>
   Create e T pool w =
     (case ApplyFile8 e pool (host (GetConnectionInfo pool)) (user (GetConnectionInfo pool))
             (password (GetConnectionInfo pool)) (port_or_socket (GetConnectionInfo pool)) []
             (ssl (GetConnectionInfo pool)) temp
             (write_file temp (create_statement (database (GetConnectionInfo pool)))
                (TC_LOG LOG_INFO (msg_creating (database (GetConnectionInfo pool))) w)) of
        (Inl ex, w2) \<Rightarrow>
          (False, remove_file temp
                    (TC_LOG LOG_FATAL (msg_create_failed (database (GetConnectionInfo pool))) w2))
      | (Inr u, w2) \<Rightarrow> (True, remove_file temp (TC_LOG LOG_INFO ''Done.'' w2)))"
  by (simp add: Create_def Let_def)

lemma Create_not_opened:
  "\<not> ofstream_is_open e temp \<Longrightarrow>
   Create e T pool w =
     (False,
      TC_LOG LOG_FATAL (''Failed to create temporary query file '' @ dq @ temp @ dq @ ''!'')
        (TC_LOG LOG_INFO (msg_creating (database (GetConnectionInfo pool))) w))"
  by (simp add: Create_def Let_def)

lemma Create_auth_trace:
  "Create env0 LoginDatabaseConnection pool0 world0 =
     (False,
      world0\<lparr>files := [''/usr/bin/mysql'' \<mapsto> ''ELF''],
             cin_good := False,
             launched := 1,
             trace :=
               [Log LOG_INFO (msg_creating ''auth''),
                FileWrite ''create_table.sql''
                  (''CREATE DATABASE `auth` DEFAULT CHARACTER SET utf8mb4 COLLATE utf8mb4_unicode_ci'' @
                   [CHR 0x0A, CHR 0x0A]),
                Exec ''/usr/bin/mysql''
                  [''-h127.0.0.1'', ''-utrinity'', ''-ptrinity'', ''-P3306'',
                   ''--default-character-set=utf8mb4'', ''--max-allowed-packet=1GB'',
                   ''-e'', ''BEGIN; SOURCE create_table.sql; COMMIT;''],
                Log LOG_WARN (msg_default_found ''auth'' ''create_table.sql''),
                Cout ''Use default TrinityCore SQL (TDB) files? [y/N]: '',
                Log LOG_INFO (msg_declined_default ''auth''),
                Log LOG_FATAL
                  ''Failed to create database auth! Does the user (named in *.conf) have `CREATE`, `ALTER`, `DROP`, `INSERT` and `DELETE` privileges on the MySQL server?'',
                FileRemove ''create_table.sql'']\<rparr>)"
  by (simp add: Create_def Let_def temp_def create_statement_def msg_create_failed_def
        ApplyFile8_declined is_regular_file_def getline_def write_file_def remove_file_def
        TC_LOG_def cout_def emit_def StartProcess_def GetCorrectedMySQLExecutable_def
        ApplyFile_args_def isdigit_def string_at_def env0_def pool0_def world0_def fun_upd_twist)


text \<open>
  Claim C5. When the scratch file \<open>create_table.sql\<close> can be opened, \<^verbatim>\<open>Create\<close> writes the
  \<^verbatim>\<open>CREATE DATABASE\<close> statement for the pool's database to it, starts the client on it, and
  removes it as its last step on both outcomes, so that the file is gone afterwards.
  \<^verbatim>\<open>Create\<close> succeeds exactly when the application did not throw; when it threw, the line
  logged just before the removal is the fatal diagnostic that asks whether the user has the
  privileges needed. (When the scratch file cannot be opened there is no application:
  \<^verbatim>\<open>Create\<close> logs that and returns failure.)
\<close>

theorem Create_scratch_file:
  "(ofstream_is_open e ''create_table.sql'' \<longrightarrow>
     files (snd (Create e T pool w)) ''create_table.sql'' = None \<and>
     (\<exists>evs. trace (snd (Create e T pool w)) =
        trace w @
        [Log LOG_INFO (msg_creating (database (GetConnectionInfo pool))),
         FileWrite ''create_table.sql''
           (''CREATE DATABASE `'' @ database (GetConnectionInfo pool) @
            ''` DEFAULT CHARACTER SET utf8mb4 COLLATE utf8mb4_unicode_ci'' @ [CHR 0x0A, CHR 0x0A]),
         Exec (GetCorrectedMySQLExecutable e w)
           (ApplyFile_args e (host (GetConnectionInfo pool)) (user (GetConnectionInfo pool))
              (password (GetConnectionInfo pool)) (port_or_socket (GetConnectionInfo pool)) []
              (ssl (GetConnectionInfo pool)) ''create_table.sql'')] @
        evs @
        [Log (if fst (Create e T pool w) then LOG_INFO else LOG_FATAL)
           (if fst (Create e T pool w) then ''Done.''
            else ''Failed to create database '' @ database (GetConnectionInfo pool) @
                 ''! Does the user (named in *.conf) have `CREATE`, `ALTER`, `DROP`, `INSERT` and `DELETE` privileges on the MySQL server?''),
         FileRemove ''create_table.sql'']) \<and>
     (\<exists>pre post.
        ApplyFile_args e (host (GetConnectionInfo pool)) (user (GetConnectionInfo pool))
          (password (GetConnectionInfo pool)) (port_or_socket (GetConnectionInfo pool)) []
          (ssl (GetConnectionInfo pool)) ''create_table.sql'' =
        pre @ [''-e'', ''BEGIN; SOURCE create_table.sql; COMMIT;''] @ post) \<and>
     fst (Create e T pool w) =
       (\<exists>u. fst (ApplyFile8 e pool (host (GetConnectionInfo pool)) (user (GetConnectionInfo pool))
                    (password (GetConnectionInfo pool)) (port_or_socket (GetConnectionInfo pool)) []
                    (ssl (GetConnectionInfo pool)) ''create_table.sql''
                    (write_file ''create_table.sql''
                       (''CREATE DATABASE `'' @ database (GetConnectionInfo pool) @
                        ''` DEFAULT CHARACTER SET utf8mb4 COLLATE utf8mb4_unicode_ci'' @
                        [CHR 0x0A, CHR 0x0A])
                       (TC_LOG LOG_INFO (msg_creating (database (GetConnectionInfo pool))) w))) = Inr u)) \<and>
   (\<not> ofstream_is_open e ''create_table.sql'' \<longrightarrow>
     Create e T pool w =
       (False,
        TC_LOG LOG_FATAL
          (''Failed to create temporary query file '' @ dq @ ''create_table.sql'' @ dq @ ''!'')
          (TC_LOG LOG_INFO (msg_creating (database (GetConnectionInfo pool))) w)))"
proof (rule conjI; rule impI)
  assume "ofstream_is_open e ''create_table.sql''"
  then have o: "ofstream_is_open e temp" by (simp add: temp_def)
  let ?ci = "GetConnectionInfo pool"
  let ?w1 = "write_file temp (create_statement (database ?ci))
               (TC_LOG LOG_INFO (msg_creating (database ?ci)) w)"
  let ?A = "ApplyFile8 e pool (host ?ci) (user ?ci) (password ?ci) (port_or_socket ?ci) []
              (ssl ?ci) temp ?w1"
  obtain evs where evs: "trace (snd ?A) =
      trace ?w1 @ Exec (GetCorrectedMySQLExecutable e ?w1)
        (ApplyFile_args e (host ?ci) (user ?ci) (password ?ci) (port_or_socket ?ci) [] (ssl ?ci) temp) # evs"
    using ApplyFile8_first_event by blast
  have exe: "GetCorrectedMySQLExecutable e ?w1 = GetCorrectedMySQLExecutable e w"
    by (simp add: GetCorrectedMySQLExecutable_def)
  have src: "\<exists>pre post.
        ApplyFile_args e (host ?ci) (user ?ci) (password ?ci) (port_or_socket ?ci) [] (ssl ?ci)
          ''create_table.sql'' =
        pre @ [''-e'', ''BEGIN; SOURCE create_table.sql; COMMIT;''] @ post"
    using ApplyFile_args_source[of e "host ?ci" "user ?ci" "password ?ci" "port_or_socket ?ci" "[]"
        "ssl ?ci" "''create_table.sql''"] by simp
  have lit: "temp = ''create_table.sql''"
    "create_statement (database ?ci) =
       ''CREATE DATABASE `'' @ database ?ci @
       ''` DEFAULT CHARACTER SET utf8mb4 COLLATE utf8mb4_unicode_ci'' @ [CHR 0x0A, CHR 0x0A]"
    "msg_create_failed (database ?ci) =
       ''Failed to create database '' @ database ?ci @
       ''! Does the user (named in *.conf) have `CREATE`, `ALTER`, `DROP`, `INSERT` and `DELETE` privileges on the MySQL server?''"
    by (simp_all add: temp_def create_statement_def msg_create_failed_def)
  show "files (snd (Create e T pool w)) ''create_table.sql'' = None \<and>
     (\<exists>evs. trace (snd (Create e T pool w)) =
        trace w @
        [Log LOG_INFO (msg_creating (database (GetConnectionInfo pool))),
         FileWrite ''create_table.sql''
           (''CREATE DATABASE `'' @ database (GetConnectionInfo pool) @
            ''` DEFAULT CHARACTER SET utf8mb4 COLLATE utf8mb4_unicode_ci'' @ [CHR 0x0A, CHR 0x0A]),
         Exec (GetCorrectedMySQLExecutable e w)
           (ApplyFile_args e (host (GetConnectionInfo pool)) (user (GetConnectionInfo pool))
              (password (GetConnectionInfo pool)) (port_or_socket (GetConnectionInfo pool)) []
              (ssl (GetConnectionInfo pool)) ''create_table.sql'')] @
        evs @
        [Log (if fst (Create e T pool w) then LOG_INFO else LOG_FATAL)
           (if fst (Create e T pool w) then ''Done.''
            else ''Failed to create database '' @ database (GetConnectionInfo pool) @
                 ''! Does the user (named in *.conf) have `CREATE`, `ALTER`, `DROP`, `INSERT` and `DELETE` privileges on the MySQL server?''),
         FileRemove ''create_table.sql'']) \<and>
     (\<exists>pre post.
        ApplyFile_args e (host (GetConnectionInfo pool)) (user (GetConnectionInfo pool))
          (password (GetConnectionInfo pool)) (port_or_socket (GetConnectionInfo pool)) []
          (ssl (GetConnectionInfo pool)) ''create_table.sql'' =
        pre @ [''-e'', ''BEGIN; SOURCE create_table.sql; COMMIT;''] @ post) \<and>
     fst (Create e T pool w) =
       (\<exists>u. fst (ApplyFile8 e pool (host (GetConnectionInfo pool)) (user (GetConnectionInfo pool))
                    (password (GetConnectionInfo pool)) (port_or_socket (GetConnectionInfo pool)) []
                    (ssl (GetConnectionInfo pool)) ''create_table.sql''
                    (write_file ''create_table.sql''
                       (''CREATE DATABASE `'' @ database (GetConnectionInfo pool) @
                        ''` DEFAULT CHARACTER SET utf8mb4 COLLATE utf8mb4_unicode_ci'' @
                        [CHR 0x0A, CHR 0x0A])
                       (TC_LOG LOG_INFO (msg_creating (database (GetConnectionInfo pool))) w))) = Inr u)"
  proof (cases "fst ?A")
    case (Inl ex)
    then have "Create e T pool w =
        (False, remove_file temp (TC_LOG LOG_FATAL (msg_create_failed (database ?ci)) (snd ?A)))"
      by (simp add: Create_unfold[OF o] case_prod_unfold)
    with Inl evs exe src show ?thesis
      unfolding lit by simp
  next
    case (Inr u)
    then have "Create e T pool w = (True, remove_file temp (TC_LOG LOG_INFO ''Done.'' (snd ?A)))"
      by (simp add: Create_unfold[OF o] case_prod_unfold)
    with Inr evs exe src show ?thesis
      unfolding lit by simp
  qed
next
  assume "\<not> ofstream_is_open e ''create_table.sql''"
  then have "\<not> ofstream_is_open e temp" by (simp add: temp_def)
  from Create_not_opened[OF this, of T pool w]
  show "Create e T pool w =
       (False,
        TC_LOG LOG_FATAL
          (''Failed to create temporary query file '' @ dq @ ''create_table.sql'' @ dq @ ''!'')
          (TC_LOG LOG_INFO (msg_creating (database (GetConnectionInfo pool))) w))"
    by (simp add: temp_def)
qed


theorem Create_scratch_file_witness:
  "ofstream_is_open env0 ''create_table.sql'' \<and>
   files (snd (Create env0 LoginDatabaseConnection pool0 world0)) ''create_table.sql'' = None \<and>
   Create env0 LoginDatabaseConnection pool0 world0 =
     (False,
      world0\<lparr>files := [''/usr/bin/mysql'' \<mapsto> ''ELF''],
             cin_good := False,
             launched := 1,
             trace :=
               [Log LOG_INFO (msg_creating ''auth''),
                FileWrite ''create_table.sql''
                  (''CREATE DATABASE `auth` DEFAULT CHARACTER SET utf8mb4 COLLATE utf8mb4_unicode_ci'' @
                   [CHR 0x0A, CHR 0x0A]),
                Exec ''/usr/bin/mysql''
                  [''-h127.0.0.1'', ''-utrinity'', ''-ptrinity'', ''-P3306'',
                   ''--default-character-set=utf8mb4'', ''--max-allowed-packet=1GB'',
                   ''-e'', ''BEGIN; SOURCE create_table.sql; COMMIT;''],
                Log LOG_WARN (msg_default_found ''auth'' ''create_table.sql''),
                Cout ''Use default TrinityCore SQL (TDB) files? [y/N]: '',
                Log LOG_INFO (msg_declined_default ''auth''),
                Log LOG_FATAL
                  ''Failed to create database auth! Does the user (named in *.conf) have `CREATE`, `ALTER`, `DROP`, `INSERT` and `DELETE` privileges on the MySQL server?'',
                FileRemove ''create_table.sql'']\<rparr>) \<and>
   files (snd (Create (env0\<lparr>exit_codes := \<lambda>n. 0\<rparr>) LoginDatabaseConnection pool0 world0))
     ''create_table.sql'' = None \<and>
   fst (Create (env0\<lparr>exit_codes := \<lambda>n. 0\<rparr>) LoginDatabaseConnection pool0 world0) \<and>
   trace (snd (Create (env0\<lparr>exit_codes := \<lambda>n. 0\<rparr>) LoginDatabaseConnection pool0 world0)) =
     [Log LOG_INFO (msg_creating ''auth''),
      FileWrite ''create_table.sql''
        (''CREATE DATABASE `auth` DEFAULT CHARACTER SET utf8mb4 COLLATE utf8mb4_unicode_ci'' @
         [CHR 0x0A, CHR 0x0A]),
      Exec ''/usr/bin/mysql''
        [''-h127.0.0.1'', ''-utrinity'', ''-ptrinity'', ''-P3306'',
         ''--default-character-set=utf8mb4'', ''--max-allowed-packet=1GB'',
         ''-e'', ''BEGIN; SOURCE create_table.sql; COMMIT;''],
      Log LOG_INFO ''Done.'',
      FileRemove ''create_table.sql''] \<and>
   \<not> ofstream_is_open (env0\<lparr>ofstream_is_open := \<lambda>p. False\<rparr>) ''create_table.sql'' \<and>
   \<not> fst (Create (env0\<lparr>ofstream_is_open := \<lambda>p. False\<rparr>) LoginDatabaseConnection pool0 world0)"
proof -
  let ?e = "env0\<lparr>exit_codes := \<lambda>n. 0\<rparr>"
  let ?n = "env0\<lparr>ofstream_is_open := \<lambda>p. False\<rparr>"
  have h: "ofstream_is_open env0 ''create_table.sql''" "ofstream_is_open ?e ''create_table.sql''"
    "\<not> ofstream_is_open ?n ''create_table.sql''"
    by (simp_all add: env0_def)
  have ok: "fst (Create ?e LoginDatabaseConnection pool0 world0)"
    "trace (snd (Create ?e LoginDatabaseConnection pool0 world0)) =
     [Log LOG_INFO (msg_creating ''auth''),
      FileWrite ''create_table.sql''
        (''CREATE DATABASE `auth` DEFAULT CHARACTER SET utf8mb4 COLLATE utf8mb4_unicode_ci'' @
         [CHR 0x0A, CHR 0x0A]),
      Exec ''/usr/bin/mysql''
        [''-h127.0.0.1'', ''-utrinity'', ''-ptrinity'', ''-P3306'',
         ''--default-character-set=utf8mb4'', ''--max-allowed-packet=1GB'',
         ''-e'', ''BEGIN; SOURCE create_table.sql; COMMIT;''],
      Log LOG_INFO ''Done.'',
      FileRemove ''create_table.sql'']"
    by (simp_all add: Create_def Let_def temp_def create_statement_def
        ApplyFile8_ok is_regular_file_def write_file_def remove_file_def
        TC_LOG_def emit_def StartProcess_def GetCorrectedMySQLExecutable_def
        ApplyFile_args_def isdigit_def string_at_def env0_def pool0_def world0_def)
  from Create_scratch_file[of env0 LoginDatabaseConnection pool0 world0] h(1)
  have 1: "files (snd (Create env0 LoginDatabaseConnection pool0 world0)) ''create_table.sql'' = None"
    by blast
  from Create_scratch_file[of ?e LoginDatabaseConnection pool0 world0] h(2)
  have 2: "files (snd (Create ?e LoginDatabaseConnection pool0 world0)) ''create_table.sql'' = None"
    by blast
  from Create_scratch_file[of ?n LoginDatabaseConnection pool0 world0] h(3)
  have 3: "\<not> fst (Create ?n LoginDatabaseConnection pool0 world0)"
    by simp
  show ?thesis
    by (intro conjI) (rule h(1) 1 Create_auth_trace 2 ok h(3) 3)+
qed

subsection \<open>The cached path of the client\<close>

lemma ApplyFile_corrected_path [simp]:
  "corrected_path (snd (ApplyFile e pool path w)) = corrected_path w"
  by (simp add: ApplyFile_def ApplyFile8_frame)

lemma Create_corrected_path:
  "corrected_path (snd (Create e T pool w)) = corrected_path w"
  by (simp add: Create_def Let_def case_prod_unfold ApplyFile8_frame split: sum.split)

lemma Populate_base_corrected_path:
  "corrected_path (snd (Populate_base e T dbName w)) = corrected_path w"
  by (simp add: Populate_base_def Let_def Populate_download_corrected_path)

lemma Populate_resolve_corrected_path:
  "corrected_path (snd (Populate_resolve e T pool w)) = corrected_path (snd (CheckExecutable e w))"
  by (cases "CheckExecutable e w")
     (simp add: Populate_resolve_def Let_def case_prod_unfold Populate_base_corrected_path
        split: bool.split)

lemma Populate_apply_corrected_path:
  "corrected_path (snd (Populate_apply e T pool base w)) = corrected_path w"
  by (simp add: Populate_apply_def case_prod_unfold split: sum.split)

lemma Populate_corrected_path:
  "corrected_path (snd (Populate e T pool w)) = corrected_path (snd (CheckExecutable e w))"
  using Populate_resolve_corrected_path[of e T pool w]
  by (simp add: Populate_def case_prod_unfold Populate_apply_corrected_path split: sum.split)

lemma Update_corrected_path:
  assumes "\<And>T pool dir a b c n w.
             corrected_path (snd (UpdateFetcher_Update e T pool dir a b c n w)) = corrected_path w"
  shows "corrected_path (snd (Update e T pool w)) = corrected_path (snd (CheckExecutable e w))"
  by (simp add: Update_unfold case_prod_unfold Update_fetch_def assms split: sum.split)

lemma CheckExecutable_found_in_path:
  assumes "fst (CheckExecutable e w)" and "\<not> is_regular_file w (GetCorrectedMySQLExecutable e w)"
  shows "snd (CheckExecutable e w) =
           w\<lparr>corrected_path := absolute e (SearchExecutableInPath e (files w) ''mysql'')\<rparr>"
    and "SearchExecutableInPath e (files w) ''mysql'' \<noteq> []"
    and "is_regular_file w (SearchExecutableInPath e (files w) ''mysql'')"
  using assms by (auto simp: CheckExecutable_def Let_def split: if_splits)

lemma CheckExecutable_keeps_nonempty:
  "corrected_path w \<noteq> [] \<Longrightarrow> corrected_path (snd (CheckExecutable e w)) \<noteq> []"
  by (simp add: CheckExecutable_def Let_def absolute_nonempty)

lemma CheckExecutable_keeps_regular:
  "corrected_path w \<noteq> [] \<Longrightarrow> is_regular_file w (corrected_path w) \<Longrightarrow>
   CheckExecutable e w = (True, w)"
  by (simp add: CheckExecutable_def Let_def GetCorrectedMySQLExecutable_def)

lemma perform_keeps_nonempty:
  assumes "\<And>T pool dir a b c n w.
             corrected_path (snd (UpdateFetcher_Update e T pool dir a b c n w)) = corrected_path w"
    and "corrected_path w \<noteq> []"
  shows "corrected_path (perform e c w) \<noteq> []"
  using CheckExecutable_keeps_nonempty[OF assms(2), of e]
  by (cases c)
     (simp_all add: assms(2) Create_corrected_path Populate_corrected_path
        Update_corrected_path[OF assms(1)])

lemma run_keeps_nonempty:
  assumes "\<And>T pool dir a b c n w.
             corrected_path (snd (UpdateFetcher_Update e T pool dir a b c n w)) = corrected_path w"
    and "corrected_path w \<noteq> []"
  shows "corrected_path (run e cs w) \<noteq> []"
  using assms(2)
proof (induction cs arbitrary: w)
  case Nil
  then show ?case by simp
next
  case (Cons c cs)
  from perform_keeps_nonempty[OF assms(1) Cons.prems]
  show ?case by (simp add: Cons.IH)
qed

lemma perform_keeps_regular:
  assumes "\<And>T pool dir a b c n w.
             corrected_path (snd (UpdateFetcher_Update e T pool dir a b c n w)) = corrected_path w"
    and "corrected_path w \<noteq> []" and "is_regular_file w (corrected_path w)"
  shows "corrected_path (perform e c w) = corrected_path w"
  using CheckExecutable_keeps_regular[OF assms(2,3), of e]
  by (cases c)
     (simp_all add: Create_corrected_path Populate_corrected_path
        Update_corrected_path[OF assms(1)])

lemma run_keeps_regular:
  assumes "\<And>T pool dir a b c n w.
             corrected_path (snd (UpdateFetcher_Update e T pool dir a b c n w)) = corrected_path w"
    and "p \<noteq> []" and "corrected_path w = p" and "regular_at_each_call e p cs w"
  shows "corrected_path (run e cs w) = p"
  using assms(3,4)
proof (induction cs arbitrary: w)
  case Nil
  then show ?case by simp
next
  case (Cons c cs)
  from Cons.prems assms(2) have "corrected_path (perform e c w) = p"
    using perform_keeps_regular[OF assms(1), of w c] by simp
  with Cons.prems show ?case by (simp add: Cons.IH)
qed

text \<open>
  Claim C8, as amended. The claim is that once \<^verbatim>\<open>CheckExecutable\<close> has found the client on
  the system path, every later \<^verbatim>\<open>GetCorrectedMySQLExecutable\<close> returns that path. It need
  not: a later \<^verbatim>\<open>CheckExecutable\<close> that finds the cached path is no longer a regular file
  searches again and stores what it finds then. What holds: \<^verbatim>\<open>GetCorrectedMySQLExecutable\<close>
  returns the cached path when one is recorded and the configured client path otherwise; a
  \<^verbatim>\<open>CheckExecutable\<close> that succeeds through the path search caches the absolute path of
  what it found, which is not empty; after that, whatever calls follow, the cache is never
  empty again and \<^verbatim>\<open>GetCorrectedMySQLExecutable\<close> returns the cache; and it returns the very
  path found first for as long as that path is a regular file whenever a call begins. The
  fetcher is assumed not to assign the static.
\<close>

theorem corrected_path_is_kept:
  "GetCorrectedMySQLExecutable e w =
     (if corrected_path w \<noteq> [] then corrected_path w else MySQLExecutable e) \<and>
   ((\<forall>T pool dir a b c n w'.
        corrected_path (snd (UpdateFetcher_Update e T pool dir a b c n w')) = corrected_path w') \<and>
    fst (CheckExecutable e w) \<and> \<not> is_regular_file w (GetCorrectedMySQLExecutable e w) \<longrightarrow>
      corrected_path (snd (CheckExecutable e w)) =
        absolute e (SearchExecutableInPath e (files w) ''mysql'') \<and>
      absolute e (SearchExecutableInPath e (files w) ''mysql'') \<noteq> [] \<and>
      is_regular_file w (SearchExecutableInPath e (files w) ''mysql'') \<and>
      (\<forall>calls. corrected_path (run e calls (snd (CheckExecutable e w))) \<noteq> [] \<and>
               GetCorrectedMySQLExecutable e (run e calls (snd (CheckExecutable e w))) =
                 corrected_path (run e calls (snd (CheckExecutable e w)))) \<and>
      (\<forall>calls.
         regular_at_each_call e (absolute e (SearchExecutableInPath e (files w) ''mysql'')) calls
           (snd (CheckExecutable e w)) \<longrightarrow>
         GetCorrectedMySQLExecutable e (run e calls (snd (CheckExecutable e w))) =
           absolute e (SearchExecutableInPath e (files w) ''mysql'')))"
proof (intro conjI impI allI)
  show "GetCorrectedMySQLExecutable e w =
     (if corrected_path w \<noteq> [] then corrected_path w else MySQLExecutable e)"
    by (simp add: GetCorrectedMySQLExecutable_def)
next
  assume h: "(\<forall>T pool dir a b c n w'.
        corrected_path (snd (UpdateFetcher_Update e T pool dir a b c n w')) = corrected_path w') \<and>
    fst (CheckExecutable e w) \<and> \<not> is_regular_file w (GetCorrectedMySQLExecutable e w)"
  then have f: "\<And>T pool dir a b c n w'.
        corrected_path (snd (UpdateFetcher_Update e T pool dir a b c n w')) = corrected_path w'"
    by blast
  from h have ok: "fst (CheckExecutable e w)"
    and np: "\<not> is_regular_file w (GetCorrectedMySQLExecutable e w)" by blast+
  note found = CheckExecutable_found_in_path[OF ok np]
  show cp: "corrected_path (snd (CheckExecutable e w)) =
        absolute e (SearchExecutableInPath e (files w) ''mysql'')"
    by (simp add: found(1))
  show ne: "absolute e (SearchExecutableInPath e (files w) ''mysql'') \<noteq> []"
    by (rule absolute_nonempty[OF found(2)])
  show "is_regular_file w (SearchExecutableInPath e (files w) ''mysql'')"
    by (rule found(3))
  fix calls
  have n: "corrected_path (run e calls (snd (CheckExecutable e w))) \<noteq> []"
    by (rule run_keeps_nonempty[OF f]) (simp add: cp ne)
  then show "corrected_path (run e calls (snd (CheckExecutable e w))) \<noteq> []" .
  from n show "GetCorrectedMySQLExecutable e (run e calls (snd (CheckExecutable e w))) =
                 corrected_path (run e calls (snd (CheckExecutable e w)))"
    by (simp add: GetCorrectedMySQLExecutable_def)
  assume "regular_at_each_call e (absolute e (SearchExecutableInPath e (files w) ''mysql'')) calls
           (snd (CheckExecutable e w))"
  from run_keeps_regular[OF f ne cp this] ne
  show "GetCorrectedMySQLExecutable e (run e calls (snd (CheckExecutable e w))) =
           absolute e (SearchExecutableInPath e (files w) ''mysql'')"
    by (simp add: GetCorrectedMySQLExecutable_def)
qed


lemma two_clients_first_check:
  "CheckExecutable env_two_clients world_two_clients =
     (True, world_two_clients\<lparr>corrected_path := ''/opt/a/mysql''\<rparr>)"
  by (simp add: CheckExecutable_def GetCorrectedMySQLExecutable_def is_regular_file_def
        absolute_def is_absolute_def env_two_clients_def env0_def world_two_clients_def
        world0_def Let_def)

text \<open>
  The claim C8 as stated fails when the cached client disappears: \<open>/opt/a/mysql\<close> was found
  and cached, it is removed while \<open>/opt/b/mysql\<close> stays, and the next \<^verbatim>\<open>CheckExecutable\<close>
  stores \<open>/opt/b/mysql\<close>.
\<close>

theorem corrected_path_is_kept_counterexample:
  "fst (CheckExecutable env_two_clients world_two_clients) \<and>
   \<not> is_regular_file world_two_clients
       (GetCorrectedMySQLExecutable env_two_clients world_two_clients) \<and>
   GetCorrectedMySQLExecutable env_two_clients
     (snd (CheckExecutable env_two_clients world_two_clients)) = ''/opt/a/mysql'' \<and>
   GetCorrectedMySQLExecutable env_two_clients
     (run env_two_clients
        [OutsideChange [''/opt/b/mysql'' \<mapsto> ''ELF''], CallCheckExecutable]
        (snd (CheckExecutable env_two_clients world_two_clients))) = ''/opt/b/mysql''"
  by (simp add: two_clients_first_check)
     (simp add: CheckExecutable_def GetCorrectedMySQLExecutable_def is_regular_file_def
        absolute_def is_absolute_def env_two_clients_def env0_def world_two_clients_def
        world0_def Let_def)

theorem corrected_path_is_kept_witness:
  "(\<forall>T pool dir a b c n w'.
      corrected_path (snd (UpdateFetcher_Update env_two_clients T pool dir a b c n w')) =
      corrected_path w') \<and>
   fst (CheckExecutable env_two_clients world_two_clients) \<and>
   \<not> is_regular_file world_two_clients
       (GetCorrectedMySQLExecutable env_two_clients world_two_clients) \<and>
   corrected_path (snd (CheckExecutable env_two_clients world_two_clients)) = ''/opt/a/mysql'' \<and>
   regular_at_each_call env_two_clients ''/opt/a/mysql''
     [CallCheckExecutable, CallApplyFile pool0 ''update.sql'',
      OutsideChange [''/opt/a/mysql'' \<mapsto> ''ELF''], CallCheckExecutable]
     (snd (CheckExecutable env_two_clients world_two_clients)) \<and>
   GetCorrectedMySQLExecutable env_two_clients
     (run env_two_clients
        [CallCheckExecutable, CallApplyFile pool0 ''update.sql'',
         OutsideChange [''/opt/a/mysql'' \<mapsto> ''ELF''], CallCheckExecutable]
        (snd (CheckExecutable env_two_clients world_two_clients))) = ''/opt/a/mysql'' \<and>
   corrected_path
     (run env_two_clients
        [OutsideChange [''/opt/b/mysql'' \<mapsto> ''ELF''], CallCheckExecutable]
        (snd (CheckExecutable env_two_clients world_two_clients))) \<noteq> []"
proof -
  let ?e = env_two_clients
  let ?w = world_two_clients
  let ?w1 = "snd (CheckExecutable ?e ?w)"
  let ?cs = "[CallCheckExecutable, CallApplyFile pool0 ''update.sql'',
      OutsideChange [''/opt/a/mysql'' \<mapsto> ''ELF''], CallCheckExecutable]"
  have f: "\<forall>T pool dir a b c n w'.
      corrected_path (snd (UpdateFetcher_Update ?e T pool dir a b c n w')) = corrected_path w'"
    by (simp add: env_two_clients_def env0_def)
  have ok: "fst (CheckExecutable ?e ?w)"
    by (simp add: two_clients_first_check)
  have np: "\<not> is_regular_file ?w (GetCorrectedMySQLExecutable ?e ?w)"
    by (simp add: GetCorrectedMySQLExecutable_def is_regular_file_def env_two_clients_def
          env0_def world_two_clients_def world0_def)
  have ab: "absolute ?e (SearchExecutableInPath ?e (files ?w) ''mysql'') = ''/opt/a/mysql''"
    by (simp add: absolute_def is_absolute_def env_two_clients_def env0_def
          world_two_clients_def world0_def)
  have w1: "?w1 = ?w\<lparr>corrected_path := ''/opt/a/mysql''\<rparr>"
    by (simp add: two_clients_first_check)
  have c1: "CheckExecutable ?e ?w1 = (True, ?w1)"
    unfolding w1
    by (rule CheckExecutable_keeps_regular)
       (simp_all add: is_regular_file_def world_two_clients_def world0_def)
  have r: "regular_at_each_call ?e ''/opt/a/mysql'' ?cs ?w1"
    by (simp add: c1 is_regular_file_def ApplyFile_def ApplyFile8_frame)
       (simp add: w1 world_two_clients_def world0_def)
  from corrected_path_is_kept[of ?e ?w] f ok np
  have k: "corrected_path ?w1 = absolute ?e (SearchExecutableInPath ?e (files ?w) ''mysql'')"
    and n: "\<forall>calls. corrected_path (run ?e calls ?w1) \<noteq> [] \<and>
               GetCorrectedMySQLExecutable ?e (run ?e calls ?w1) = corrected_path (run ?e calls ?w1)"
    and g: "\<forall>calls.
         regular_at_each_call ?e (absolute ?e (SearchExecutableInPath ?e (files ?w) ''mysql'')) calls ?w1 \<longrightarrow>
         GetCorrectedMySQLExecutable ?e (run ?e calls ?w1) =
           absolute ?e (SearchExecutableInPath ?e (files ?w) ''mysql'')"
    by blast+
  from g[unfolded ab] r have g': "GetCorrectedMySQLExecutable ?e (run ?e ?cs ?w1) = ''/opt/a/mysql''"
    by blast
  from n have n': "corrected_path
     (run ?e [OutsideChange [''/opt/b/mysql'' \<mapsto> ''ELF''], CallCheckExecutable] ?w1) \<noteq> []"
    by blast
  show ?thesis
    by (intro conjI) (rule f ok np k[unfolded ab] r g' n')+
qed

subsection \<open>Populate\<close>

lemma getline_after_CheckExecutable [simp]:
  "fst (getline s (snd (CheckExecutable e w))) = fst (getline s w)"
  "cin (snd (getline s (snd (CheckExecutable e w)))) = cin (snd (getline s w))"
  "cin_good (snd (getline s (snd (CheckExecutable e w)))) = cin_good (snd (getline s w))"
  by (simp_all add: getline_def split: list.split)

lemma Populate_resolve_unfold:
  "Populate_resolve e T pool w =
     (if \<not> fst (CheckExecutable e w) then (Inl False, snd (CheckExecutable e w))
      else if T \<noteq> WorldDatabaseConnection \<and> T \<noteq> HotfixDatabaseConnection then
        (if (case Query pool ''SHOW TABLES'' of None \<Rightarrow> False | Some rows \<Rightarrow> rows > 0)
         then (Inl True, emit (DbQuery ''SHOW TABLES'') (snd (CheckExecutable e w)))
         else Populate_base e T (GetTableName T)
                (emit (DbQuery ''SHOW TABLES'') (snd (CheckExecutable e w))))
      else Populate_base e T (GetTableName T) (snd (CheckExecutable e w)))"
proof (cases "CheckExecutable e w")
  case (Pair ok w1)
  show ?thesis
    unfolding Populate_resolve_def Pair
    by (cases ok; cases T) (simp_all add: Let_def Retrieve_def)
qed

lemma Populate_base_download:
  assumes "T = WorldDatabaseConnection \<or> T = HotfixDatabaseConnection" and "GetBaseFile e T \<noteq> []"
  shows "Populate_base e T (GetTableName T) w =
           Populate_download e (GetTableName T) (downloadUrl_of (GetTableName T)) (GetBaseFile e T)
             (TC_LOG LOG_INFO (msg_updating_to_latest (GetTableName T)) w)"
  using assms
  by (auto simp: Populate_base_def Let_def downloadUrl_of_def world_url_def hotfixes_url_def)

lemma Populate_base_adds:
  assumes "\<And>lvl msg. P (Log lvl msg)" and "\<And>s. P (Cout s)" and "\<And>p c. P (FileWrite p c)"
  shows "adds P (TC_LOG LOG_INFO (msg_updating_to_latest dbName) w) (snd (Populate_base e T dbName w))"
  using assms
  by (simp add: Populate_base_def Let_def Populate_download_adds adds_TC_LOG)


text \<open>
  Claim C1. If applying the base file during \<^verbatim>\<open>Populate\<close> fails and no default file exists
  on disk, or the operator declines the default file, \<^verbatim>\<open>Populate\<close> returns failure. The code
  does not do so. On the auth database, with the client exiting with status 1 and no file at
  the base path, \<^verbatim>\<open>ApplyFile\<close> logs the error and throws \<^verbatim>\<open>UpdateException\<close>; the handler
  in \<^verbatim>\<open>Populate\<close> is empty, so \<^verbatim>\<open>Populate\<close> goes on to log that the update completed and
  returns success. The same happens on the character database when the base file is there, the
  client exits with status 1 and the operator declines the default file. (The handlers of the
  same exception in \<^verbatim>\<open>Create\<close> and \<^verbatim>\<open>Update\<close> return failure.)
\<close>

theorem Populate_reports_success_after_failed_apply:
  "exit_codes env0 0 = 1 \<and>
   \<not> is_regular_file world0 ''/src/sql/base/auth_database.sql'' \<and>
   Populate env0 LoginDatabaseConnection pool0 world0 =
     (True,
      world0\<lparr>launched := 1,
             trace :=
               [DbQuery ''SHOW TABLES'',
                Log LOG_INFO ''Updating the Auth database to latest...'',
                Log LOG_INFO ''>> Applying '/src/sql/base/auth_database.sql'...'',
                Exec ''/usr/bin/mysql''
                  [''-h127.0.0.1'', ''-utrinity'', ''-ptrinity'', ''-P3306'',
                   ''--default-character-set=utf8mb4'', ''--max-allowed-packet=1GB'',
                   ''-e'', ''BEGIN; SOURCE /src/sql/base/auth_database.sql; COMMIT;'', ''auth''],
                Log LOG_ERROR
                  (''Database update aborted or failed for 'auth'.'' @ [CHR 0x0A] @
                   ''You declined to download or provide a custom SQL file, and no default TDB SQL file was found at '/src/sql/base/auth_database.sql'.'' @ [CHR 0x0A] @
                   ''Please manually place a valid SQL file in the correct location, enable AutoDBUpdate, or re-run the configuration.''),
                Log LOG_INFO ''>> Auth Database update completed!'']\<rparr>) \<and>
   is_regular_file
     (world0\<lparr>files := [''/usr/bin/mysql'' \<mapsto> ''ELF'',
                        ''/src/sql/base/characters_database.sql'' \<mapsto> ''CREATE TABLE''],
             cin := [''n'']\<rparr>)
     ''/src/sql/base/characters_database.sql'' \<and>
   Populate env0 CharacterDatabaseConnection pool0
     (world0\<lparr>files := [''/usr/bin/mysql'' \<mapsto> ''ELF'',
                        ''/src/sql/base/characters_database.sql'' \<mapsto> ''CREATE TABLE''],
             cin := [''n'']\<rparr>) =
     (True,
      world0\<lparr>files := [''/usr/bin/mysql'' \<mapsto> ''ELF'',
                        ''/src/sql/base/characters_database.sql'' \<mapsto> ''CREATE TABLE''],
             cin := [],
             launched := 1,
             trace :=
               [DbQuery ''SHOW TABLES'',
                Log LOG_INFO ''Updating the Character database to latest...'',
                Log LOG_INFO ''>> Applying '/src/sql/base/characters_database.sql'...'',
                Exec ''/usr/bin/mysql''
                  [''-h127.0.0.1'', ''-utrinity'', ''-ptrinity'', ''-P3306'',
                   ''--default-character-set=utf8mb4'', ''--max-allowed-packet=1GB'',
                   ''-e'', ''BEGIN; SOURCE /src/sql/base/characters_database.sql; COMMIT;'', ''auth''],
                Log LOG_WARN
                  (''Database update for 'auth' was skipped or failed.'' @ [CHR 0x0A] @
                   ''You declined both online and custom local SQL updates, but a default local file was found:'' @ [CHR 0x0A] @
                   ''    /src/sql/base/characters_database.sql'' @ [CHR 0x0A] @
                   ''Would you like to use this default SQL file for database setup?''),
                Cout ''Use default TrinityCore SQL (TDB) files? [y/N]: '',
                Log LOG_INFO
                  ''User declined to apply default local SQL file. Database 'auth' remains unchanged.'',
                Log LOG_INFO ''>> Character Database update completed!'']\<rparr>)"
  by (simp add: Populate_def Populate_resolve_def CheckExecutable_def GetCorrectedMySQLExecutable_def
      env0_def pool0_def world0_def is_regular_file_def Retrieve_def Populate_base_def downloadUrl_of_def
      Populate_apply_def ApplyFile_def ApplyFile8_no_default ApplyFile8_declined Let_def
      ApplyFile_args_def isdigit_def string_at_def getline_def cout_def TC_LOG_def emit_def
      StartProcess_def msg_updating_to_latest_def msg_applying_def msg_completed_def
      msg_no_default_def msg_default_found_def msg_declined_default_def)

lemma DownloadFile_fst_indep:
  "fst (DownloadFile e url dest w') = fst (DownloadFile e url dest w)"
  by (simp add: DownloadFile_fst)

lemma Populate_download_consent_failed:
  assumes "GetBoolDefault e ''AllowAutoDBUpdate'' False \<or>
           fst (getline [] w) = ''y'' \<or> fst (getline [] w) = ''Y''"
    and "\<not> fst (DownloadFile e url base w)"
  shows "fst (Populate_download e dbName url base w) = Inl False \<and>
         last (trace (snd (Populate_download e dbName url base w))) =
           Log LOG_FATAL (msg_download_failed url)"
proof -
  have d: "\<And>w'. fst (DownloadFile e url base w') = False"
    using assms(2) DownloadFile_fst_indep by blast
  show ?thesis
    using assms(1)
    by (auto simp: Populate_download_def Let_def case_prod_unfold d)
qed

lemma Populate_download_launched:
  "launched (snd (Populate_download e dbName url base w)) = launched w"
  by (simp add: Populate_download_def Let_def case_prod_unfold split: bool.split)

lemma Populate_base_launched:
  "launched (snd (Populate_base e T dbName w)) = launched w"
  by (simp add: Populate_base_def Let_def Populate_download_launched)

lemma Populate_resolve_launched:
  "launched (snd (Populate_resolve e T pool w)) = launched w"
  by (simp add: Populate_resolve_unfold Populate_base_launched)

lemma Populate_resolve_adds:
  assumes "\<And>lvl msg. P (Log lvl msg)" and "\<And>s. P (Cout s)" and "\<And>p c. P (FileWrite p c)"
    and "\<And>q. P (DbQuery q)"
  shows "adds P w (snd (Populate_resolve e T pool w))"
proof -
  have c: "adds P w (snd (CheckExecutable e w))"
    by (rule adds_CheckExecutable) (rule assms)
  have q: "adds P w (emit (DbQuery ''SHOW TABLES'') (snd (CheckExecutable e w)))"
    by (rule adds_emit[OF assms(4) c])
  have b: "adds P w (snd (Populate_base e T (GetTableName T) w'))" if "adds P w w'" for w'
  proof -
    have "adds P w (TC_LOG LOG_INFO (msg_updating_to_latest (GetTableName T)) w')"
      using that by (simp add: adds_TC_LOG assms(1))
    moreover have "adds P (TC_LOG LOG_INFO (msg_updating_to_latest (GetTableName T)) w')
                     (snd (Populate_base e T (GetTableName T) w'))"
      by (rule Populate_base_adds) (rule assms)+
    ultimately show ?thesis by (rule adds_trans)
  qed
  show ?thesis
    by (simp add: Populate_resolve_unfold c q b)
qed

text \<open>
  Claim C7. In \<^verbatim>\<open>Populate\<close> for the world or the hotfix database, with a valid client
  executable and a base file name, when consent is given (\<^verbatim>\<open>AllowAutoDBUpdate\<close> is set, or the
  operator answers \<open>y\<close> or \<open>Y\<close>) and the download fails, \<^verbatim>\<open>Populate\<close> returns failure at once:
  the last thing it does is log the failed download, and no client process is started.
\<close>

theorem Populate_download_failure:
  "fst (CheckExecutable e w) \<and>
   (T = WorldDatabaseConnection \<or> T = HotfixDatabaseConnection) \<and>
   GetBaseFile e T \<noteq> [] \<and>
   (GetBoolDefault e ''AllowAutoDBUpdate'' False \<or>
    fst (getline [] w) = ''y'' \<or> fst (getline [] w) = ''Y'') \<and>
   \<not> fst (DownloadFile e (downloadUrl_of (GetTableName T)) (GetBaseFile e T) w) \<longrightarrow>
     \<not> fst (Populate e T pool w) \<and>
     last (trace (snd (Populate e T pool w))) =
       Log LOG_FATAL (msg_download_failed (downloadUrl_of (GetTableName T))) \<and>
     launched (snd (Populate e T pool w)) = launched w \<and>
     adds (\<lambda>ev. \<not> is_Exec ev) w (snd (Populate e T pool w))"
proof (intro impI)
  assume h: "fst (CheckExecutable e w) \<and>
   (T = WorldDatabaseConnection \<or> T = HotfixDatabaseConnection) \<and>
   GetBaseFile e T \<noteq> [] \<and>
   (GetBoolDefault e ''AllowAutoDBUpdate'' False \<or>
    fst (getline [] w) = ''y'' \<or> fst (getline [] w) = ''Y'') \<and>
   \<not> fst (DownloadFile e (downloadUrl_of (GetTableName T)) (GetBaseFile e T) w)"
  let ?w1 = "TC_LOG LOG_INFO (msg_updating_to_latest (GetTableName T)) (snd (CheckExecutable e w))"
  let ?D = "Populate_download e (GetTableName T) (downloadUrl_of (GetTableName T)) (GetBaseFile e T) ?w1"
  from h have T: "T = WorldDatabaseConnection \<or> T = HotfixDatabaseConnection"
    and base: "GetBaseFile e T \<noteq> []" by blast+
  from h T have res: "Populate_resolve e T pool w = ?D"
    by (auto simp: Populate_resolve_unfold Populate_base_download)
  have consent: "GetBoolDefault e ''AllowAutoDBUpdate'' False \<or>
      fst (getline [] ?w1) = ''y'' \<or> fst (getline [] ?w1) = ''Y''"
    using h by simp
  have nodl: "\<not> fst (DownloadFile e (downloadUrl_of (GetTableName T)) (GetBaseFile e T) ?w1)"
    using h DownloadFile_fst_indep by blast
  note D = Populate_download_consent_failed[OF consent nodl, of "GetTableName T"]
  from D res have P: "Populate e T pool w = (False, snd (Populate_resolve e T pool w))"
    by (cases ?D) (simp add: Populate_def)
  have "adds (\<lambda>ev. \<not> is_Exec ev) w (snd (Populate_resolve e T pool w))"
    by (rule Populate_resolve_adds) simp_all
  with D res P Populate_resolve_launched[of e T pool w]
  show "\<not> fst (Populate e T pool w) \<and>
     last (trace (snd (Populate e T pool w))) =
       Log LOG_FATAL (msg_download_failed (downloadUrl_of (GetTableName T))) \<and>
     launched (snd (Populate e T pool w)) = launched w \<and>
     adds (\<lambda>ev. \<not> is_Exec ev) w (snd (Populate e T pool w))"
    by simp
qed

theorem Populate_download_failure_witness:
  "fst (CheckExecutable env0 (world0\<lparr>cin := [''Y'']\<rparr>)) \<and>
   GetBaseFile env0 WorldDatabaseConnection \<noteq> [] \<and>
   fst (getline [] (world0\<lparr>cin := [''Y'']\<rparr>)) = ''Y'' \<and>
   \<not> fst (DownloadFile env0 (downloadUrl_of (GetTableName WorldDatabaseConnection))
            (GetBaseFile env0 WorldDatabaseConnection) (world0\<lparr>cin := [''Y'']\<rparr>)) \<and>
   \<not> fst (Populate env0 WorldDatabaseConnection pool0 (world0\<lparr>cin := [''Y'']\<rparr>)) \<and>
   last (trace (snd (Populate env0 WorldDatabaseConnection pool0 (world0\<lparr>cin := [''Y'']\<rparr>)))) =
     Log LOG_FATAL (msg_download_failed world_url) \<and>
   launched (snd (Populate env0 WorldDatabaseConnection pool0 (world0\<lparr>cin := [''Y'']\<rparr>))) = 0"
proof -
  let ?w = "world0\<lparr>cin := [''Y'']\<rparr>"
  have c: "fst (CheckExecutable env0 ?w)"
    by (simp add: CheckExecutable_def GetCorrectedMySQLExecutable_def is_regular_file_def
          env0_def world0_def)
  have b: "GetBaseFile env0 WorldDatabaseConnection \<noteq> []"
    by (simp add: env0_def)
  have g: "fst (getline [] ?w) = ''Y''"
    by (simp add: getline_def world0_def)
  have d: "\<not> fst (DownloadFile env0 (downloadUrl_of (GetTableName WorldDatabaseConnection))
            (GetBaseFile env0 WorldDatabaseConnection) ?w)"
    by (simp add: DownloadFile_fst env0_def)
  have u: "downloadUrl_of (GetTableName WorldDatabaseConnection) = world_url" "launched ?w = 0"
    by (simp_all add: downloadUrl_of_def world0_def)
  from Populate_download_failure[of env0 ?w WorldDatabaseConnection pool0] c b g d
  have "\<not> fst (Populate env0 WorldDatabaseConnection pool0 ?w)"
    and "last (trace (snd (Populate env0 WorldDatabaseConnection pool0 ?w))) =
       Log LOG_FATAL (msg_download_failed (downloadUrl_of (GetTableName WorldDatabaseConnection)))"
    and "launched (snd (Populate env0 WorldDatabaseConnection pool0 ?w)) = launched ?w"
    by blast+
  with c b g d show ?thesis
    unfolding u by (intro conjI)
qed

text \<open>
  Claim C2. After the operator has declined the download and has declined, or not supplied,
  a local file, \<^verbatim>\<open>Populate\<close> applies no base file in that run. The code does not do so. On the
  world database, with the base file on disk and the operator answering \<open>n\<close> twice,
  \<^verbatim>\<open>Populate\<close> logs that the update was canceled by the user and then starts the client on the
  base file all the same. When the operator accepts a local file and enters an empty path,
  \<^verbatim>\<open>Populate\<close> logs that the update is skipped and then starts the client on the empty path.
\<close>

theorem Populate_applies_base_after_cancel:
  "Populate (env0\<lparr>exit_codes := \<lambda>n. 0\<rparr>) WorldDatabaseConnection pool0
     (world0\<lparr>files := [''/usr/bin/mysql'' \<mapsto> ''ELF'', ''TDB_world.sql'' \<mapsto> ''CREATE TABLE''],
             cin := [''n'', ''n'']\<rparr>) =
     (True,
      world0\<lparr>files := [''/usr/bin/mysql'' \<mapsto> ''ELF'', ''TDB_world.sql'' \<mapsto> ''CREATE TABLE''],
             cin := [],
             launched := 1,
             trace :=
               [Log LOG_INFO ''Updating the World database to latest...'',
                Cout ''Do you want to download and apply the latest World database update? [y/N]: '',
                Cout ''Do you want to use an existing local SQL file instead? [y/N]: '',
                Log LOG_INFO ''Update canceled by user.'',
                Log LOG_INFO ''>> Applying 'TDB_world.sql'...'',
                Exec ''/usr/bin/mysql''
                  [''-h127.0.0.1'', ''-utrinity'', ''-ptrinity'', ''-P3306'',
                   ''--default-character-set=utf8mb4'', ''--max-allowed-packet=1GB'',
                   ''-e'', ''BEGIN; SOURCE TDB_world.sql; COMMIT;'', ''auth''],
                Log LOG_INFO ''>> World Database update completed!'']\<rparr>) \<and>
   Populate env0 WorldDatabaseConnection pool0 (world0\<lparr>cin := [''n'', ''y'', []]\<rparr>) =
     (True,
      world0\<lparr>cin := [],
             launched := 1,
             trace :=
               [Log LOG_INFO ''Updating the World database to latest...'',
                Cout ''Do you want to download and apply the latest World database update? [y/N]: '',
                Cout ''Do you want to use an existing local SQL file instead? [y/N]: '',
                Cout ''Enter full path to local SQL file: '',
                Log LOG_INFO ''No local file provided, skipping database update.'',
                Log LOG_INFO (''Using existing local file '' @ [CHR 0x27, CHR 0x27]),
                Log LOG_INFO (''>> Applying '' @ [CHR 0x27, CHR 0x27] @ ''...''),
                Exec ''/usr/bin/mysql''
                  [''-h127.0.0.1'', ''-utrinity'', ''-ptrinity'', ''-P3306'',
                   ''--default-character-set=utf8mb4'', ''--max-allowed-packet=1GB'',
                   ''-e'', ''BEGIN; SOURCE ; COMMIT;'', ''auth''],
                Log LOG_ERROR
                  (''Database update aborted or failed for 'auth'.'' @ [CHR 0x0A] @
                   ''You declined to download or provide a custom SQL file, and no default TDB SQL file was found at '' @
                   [CHR 0x27, CHR 0x27] @ ''.'' @ [CHR 0x0A] @
                   ''Please manually place a valid SQL file in the correct location, enable AutoDBUpdate, or re-run the configuration.''),
                Log LOG_INFO ''>> World Database update completed!'']\<rparr>)"
  by (simp add: Populate_def Populate_resolve_def CheckExecutable_def GetCorrectedMySQLExecutable_def
      env0_def pool0_def world0_def is_regular_file_def Populate_base_def downloadUrl_of_def
      world_url_def Populate_download_def GetBoolDefault_def getline_def cout_def
      Populate_apply_def ApplyFile_def ApplyFile8_ok ApplyFile8_no_default Let_def
      ApplyFile_args_def isdigit_def string_at_def TC_LOG_def emit_def StartProcess_def
      msg_updating_to_latest_def msg_applying_def msg_completed_def msg_no_default_def)






end
